theory Spec2Isabelle
  imports Main
begin

section \<open>Values shared by the two clients\<close>

text \<open>
  ArbiterAI has two WebSocket clients: the React provider \<^verbatim>\<open>AgentProvider.tsx\<close> with its
  page \<^verbatim>\<open>Home.tsx\<close> (the browser client), and \<^verbatim>\<open>electron-app/app.js\<close> (the desktop
  shell). Both are event-driven: every handler runs to completion on one event loop, so
  a handler is a function from the state before to the state after.

  Strings are byte strings (UTF-8), as \<^typ>\<open>string\<close> is.
\<close>

subsection \<open>JSON values and property access\<close>

text \<open>
  What \<^verbatim>\<open>JSON.parse\<close> returns. An object holds its properties as parsed, one entry
  per name. Numbers are kept as integers: no handler computes with them.
\<close>

datatype jvalue =
  JNull
| JBool bool
| JNum int
| JStr string
| JArr "jvalue list"
| JObj "(string \<times> jvalue) list"

text \<open>A JavaScript value read from a frame: \<open>None\<close> is \<^verbatim>\<open>undefined\<close>.\<close>

type_synonym jsval = "jvalue option"

text \<open>
  \<^verbatim>\<open>data.name\<close>. Reading a property of \<^verbatim>\<open>null\<close> throws a TypeError (\<open>None\<close>);
  a boolean, number, string or array has none of the names read here, so the result is
  \<^verbatim>\<open>undefined\<close>.
\<close>

fun getprop :: "string \<Rightarrow> jvalue \<Rightarrow> jsval option" where
  "getprop name JNull = None"
| "getprop name (JObj kvs) = Some (map_of kvs name)"
| "getprop name v = Some None"

text \<open>Truthiness of a value, as \<^verbatim>\<open>if (x)\<close> and \<^verbatim>\<open>x ? a : b\<close> test it.\<close>

fun truthy :: "jsval \<Rightarrow> bool" where
  "truthy None = False"
| "truthy (Some JNull) = False"
| "truthy (Some (JBool b)) = b"
| "truthy (Some (JNum n)) = (n \<noteq> 0)"
| "truthy (Some (JStr s)) = (s \<noteq> [])"
| "truthy (Some (JArr vs)) = True"
| "truthy (Some (JObj kvs)) = True"

text \<open>
  An inbound frame, by the outcome of \<^verbatim>\<open>JSON.parse(event.data)\<close>: the text does not
  parse (a SyntaxError is thrown), or it parses to a value.
\<close>

datatype frame = Malformed | Json jvalue

text \<open>The console, where both clients write their diagnostics.\<close>

datatype diag =
  Log string
| LogValue string jsval
| Error string
| Reconnecting nat nat

text \<open>The states of a socket (\<^verbatim>\<open>WebSocket.readyState\<close>).\<close>

datatype readyState = CONNECTING | OPEN | CLOSING | CLOSED

text \<open>
  \<^verbatim>\<open>ws.close()\<close> on the socket's state: a socket that is not yet closed starts closing;
  its close event follows later.
\<close>

fun closing :: "readyState \<Rightarrow> readyState" where
  "closing CLOSED = CLOSED"
| "closing r = CLOSING"

text \<open>The list with \<open>f\<close> applied at position \<open>i\<close>, if there is one.\<close>

fun map_index :: "nat \<Rightarrow> ('a \<Rightarrow> 'a) \<Rightarrow> 'a list \<Rightarrow> 'a list" where
  "map_index i f [] = []"
| "map_index 0 f (x # xs) = f x # xs"
| "map_index (Suc i) f (x # xs) = x # map_index i f xs"

definition readyState_of :: "readyState list \<Rightarrow> nat \<Rightarrow> readyState option" where
  "readyState_of socks i = (if i < length socks then Some (socks ! i) else None)"

subsection \<open>String.prototype.trim\<close>

text \<open>
  The white space and line terminators that \<^verbatim>\<open>trim\<close> strips, in UTF-8: U+0009 to
  U+000D, U+0020, U+00A0, U+1680, U+2000 to U+200A, U+2028, U+2029, U+202F, U+205F,
  U+3000 and U+FEFF.
\<close>

definition whiteSpace :: "string list" where
  "whiteSpace =
    [[CHR 0x09], [CHR 0x0A], [CHR 0x0B], [CHR 0x0C], [CHR 0x0D], [CHR 0x20],
     [CHR 0xC2, CHR 0xA0],
     [CHR 0xE1, CHR 0x9A, CHR 0x80],
     [CHR 0xE2, CHR 0x80, CHR 0x80], [CHR 0xE2, CHR 0x80, CHR 0x81],
     [CHR 0xE2, CHR 0x80, CHR 0x82], [CHR 0xE2, CHR 0x80, CHR 0x83],
     [CHR 0xE2, CHR 0x80, CHR 0x84], [CHR 0xE2, CHR 0x80, CHR 0x85],
     [CHR 0xE2, CHR 0x80, CHR 0x86], [CHR 0xE2, CHR 0x80, CHR 0x87],
     [CHR 0xE2, CHR 0x80, CHR 0x88], [CHR 0xE2, CHR 0x80, CHR 0x89],
     [CHR 0xE2, CHR 0x80, CHR 0x8A],
     [CHR 0xE2, CHR 0x80, CHR 0xA8], [CHR 0xE2, CHR 0x80, CHR 0xA9],
     [CHR 0xE2, CHR 0x80, CHR 0xAF],
     [CHR 0xE2, CHR 0x81, CHR 0x9F],
     [CHR 0xE3, CHR 0x80, CHR 0x80],
     [CHR 0xEF, CHR 0xBB, CHR 0xBF]]"

text \<open>The rest of \<open>s\<close> after one leading sequence of \<open>ws\<close>, if \<open>s\<close> starts with one.\<close>

fun strip_one :: "string list \<Rightarrow> string \<Rightarrow> string option" where
  "strip_one [] s = None"
| "strip_one (w # ws) s =
     (if w \<noteq> [] \<and> take (length w) s = w then Some (drop (length w) s)
      else strip_one ws s)"

lemma strip_one_shorter: "strip_one ws s = Some r \<Longrightarrow> length r < length s"
proof (induction ws)
  case Nil
  then show ?case by simp
next
  case (Cons w ws)
  show ?case
  proof (cases "w \<noteq> [] \<and> take (length w) s = w")
    case True
    then have "length (take (length w) s) = length w" by simp
    then have "length w \<le> length s" by simp
    moreover have "0 < length w" using True by simp
    moreover have "length r = length s - length w" using Cons.prems True by auto
    ultimately show ?thesis by linarith
  next
    case False
    then show ?thesis using Cons by auto
  qed
qed

function strip_all :: "string list \<Rightarrow> string \<Rightarrow> string" where
  "strip_all ws s = (case strip_one ws s of None \<Rightarrow> s | Some r \<Rightarrow> strip_all ws r)"
  by pat_completeness auto
termination
  by (relation "measure (\<lambda>(ws, s). length s)") (auto simp: strip_one_shorter)

declare strip_all.simps [simp del]

definition trim :: "string \<Rightarrow> string" where
  "trim s = rev (strip_all (map rev whiteSpace) (rev (strip_all whiteSpace s)))"

text \<open>
  A property read once \<^verbatim>\<open>data.type\<close> has been read without a throw (\<open>data\<close> is
  not \<^verbatim>\<open>null\<close> then).
\<close>

definition field :: "string \<Rightarrow> jvalue \<Rightarrow> jsval" where
  "field name data = (case getprop name data of None \<Rightarrow> None | Some v \<Rightarrow> v)"

section \<open>The browser client: AgentProvider.tsx and Home.tsx\<close>

subsection \<open>State\<close>

datatype msgType = User | Agent | Result

text \<open>
  \<^verbatim>\<open>interface Message\<close>. The fields \<^verbatim>\<open>id\<close> and \<^verbatim>\<open>timestamp\<close>, which
  \<^verbatim>\<open>addMessage\<close> draws from \<^verbatim>\<open>Math.random()\<close> and \<^verbatim>\<open>new Date()\<close>, are left out:
  nothing in the client reads them but the rendering. The other fields hold whatever the
  frame carried: the TypeScript types are not checked when the program runs.
\<close>

record message =
  mtype :: msgType
  content :: jsval
  step :: jsval
  success :: jsval
  stepNumber :: jsval
  totalSteps :: jsval

text \<open>
  The provider's state (\<^verbatim>\<open>useState\<close> and \<^verbatim>\<open>useRef\<close> cells), the text field of
  \<^verbatim>\<open>Home\<close>, and the environment the handlers act on: \<open>sockets\<close> holds the
  \<^verbatim>\<open>readyState\<close> of every socket created so far (a socket is named by its position),
  \<open>timeouts\<close> the delay of every \<^verbatim>\<open>setTimeout\<close> call so far (a timer is named by its
  position; real timer handles are truthy), \<open>pending\<close> the timers that are neither fired
  nor cleared, \<open>sent\<close> the objects given to \<^verbatim>\<open>ws.send(JSON.stringify(...))\<close> with the
  socket that sent them.
\<close>

record provider =
  status :: jsval
  messages :: "message list"
  isConnected :: bool
  wsRef :: "nat option"
  reconnectTimeoutRef :: "nat option"
  reconnectAttempts :: nat
  input :: string
  sockets :: "readyState list"
  timeouts :: "nat list"
  pending :: "nat list"
  sent :: "(nat \<times> jvalue) list"
  console :: "diag list"

definition initial :: provider where
  "initial =
    \<lparr>status = Some (JStr ''idle''), messages = [], isConnected = False, wsRef = None,
     reconnectTimeoutRef = None, reconnectAttempts = 0, input = [], sockets = [],
     timeouts = [], pending = [], sent = [], console = []\<rparr>"

definition maxReconnectAttempts :: nat where
  "maxReconnectAttempts = 5"

text \<open>The cross mark U+274C that starts both notices, in UTF-8.\<close>

definition crossMark :: string where
  "crossMark = [CHR 0xE2, CHR 0x9D, CHR 0x8C]"

definition notConnected :: message where
  "notConnected =
    \<lparr>mtype = Agent,
     content = Some (JStr (crossMark @ '' Not connected to server. Please wait for reconnection...'')),
     step = None, success = None, stepNumber = None, totalSteps = None\<rparr>"

definition connectionLost :: message where
  "connectionLost =
    \<lparr>mtype = Agent,
     content = Some (JStr (crossMark @ '' Connection lost. Please refresh the page to reconnect.'')),
     step = None, success = None, stepNumber = None, totalSteps = None\<rparr>"

subsection \<open>Handlers\<close>

definition addMessage :: "message \<Rightarrow> provider \<Rightarrow> provider" where
  "addMessage m s = s\<lparr>messages := messages s @ [m]\<rparr>"

text \<open>
  \<^verbatim>\<open>connect\<close>: a new socket, kept in \<^verbatim>\<open>wsRef.current\<close>. The constructor throws only
  on a URL that is not a WebSocket URL, which \<^verbatim>\<open>ws://localhost:8000/ws\<close> is.
\<close>

definition connect :: "provider \<Rightarrow> provider" where
  "connect s = s\<lparr>sockets := sockets s @ [CONNECTING], wsRef := Some (length (sockets s))\<rparr>"

definition ws_onopen :: "provider \<Rightarrow> provider" where
  "ws_onopen s =
    s\<lparr>console := console s @ [Log ''WebSocket connected''],
      isConnected := True, reconnectAttempts := 0\<rparr>"

definition ws_onmessage :: "frame \<Rightarrow> provider \<Rightarrow> provider" where
  "ws_onmessage f s =
    (case f of
       Malformed \<Rightarrow> s\<lparr>console := console s @ [Error ''Error parsing WebSocket message:'']\<rparr>
     | Json data \<Rightarrow>
        (case getprop ''type'' data of
           None \<Rightarrow> s\<lparr>console := console s @ [Error ''Error parsing WebSocket message:'']\<rparr>
         | Some t \<Rightarrow>
            if t = Some (JStr ''status'') then s\<lparr>status := field ''content'' data\<rparr>
            else if t = Some (JStr ''agent'') then
              addMessage
                \<lparr>mtype = Agent, content = field ''content'' data, step = None, success = None,
                 stepNumber = None, totalSteps = None\<rparr> s
            else if t = Some (JStr ''result'') then
              addMessage
                \<lparr>mtype = Result, content = field ''content'' data, step = field ''step'' data,
                 success = field ''success'' data, stepNumber = field ''stepNumber'' data,
                 totalSteps = field ''totalSteps'' data\<rparr> s
            else s\<lparr>console := console s @ [LogValue ''Unknown message type:'' t]\<rparr>))"

definition ws_onerror :: "provider \<Rightarrow> provider" where
  "ws_onerror s = s\<lparr>console := console s @ [Error ''WebSocket error:'']\<rparr>"

definition ws_onclose :: "provider \<Rightarrow> provider" where
  "ws_onclose s =
    (let s1 = s\<lparr>console := console s @ [Log ''WebSocket disconnected''],
                isConnected := False, wsRef := None\<rparr>
     in if reconnectAttempts s1 < maxReconnectAttempts then
          let delay = min (1000 * 2 ^ reconnectAttempts s1) 10000
          in s1\<lparr>console := console s1 @ [Reconnecting delay (reconnectAttempts s1 + 1)],
                timeouts := timeouts s1 @ [delay],
                pending := pending s1 @ [length (timeouts s1)],
                reconnectTimeoutRef := Some (length (timeouts s1))\<rparr>
        else addMessage connectionLost s1)"

text \<open>The callback given to \<^verbatim>\<open>setTimeout\<close> in \<^verbatim>\<open>ws.onclose\<close>.\<close>

definition reconnect :: "provider \<Rightarrow> provider" where
  "reconnect s = connect (s\<lparr>reconnectAttempts := reconnectAttempts s + 1\<rparr>)"

text \<open>The cleanup that \<^verbatim>\<open>useEffect\<close> returns.\<close>

definition cleanup :: "provider \<Rightarrow> provider" where
  "cleanup s =
    (let s1 = (case reconnectTimeoutRef s of
                 None \<Rightarrow> s
               | Some t \<Rightarrow> s\<lparr>pending := removeAll t (pending s)\<rparr>)
     in case wsRef s1 of
          None \<Rightarrow> s1
        | Some i \<Rightarrow> s1\<lparr>sockets := map_index i closing (sockets s1)\<rparr>)"

definition clearMessages :: "provider \<Rightarrow> provider" where
  "clearMessages s = s\<lparr>messages := []\<rparr>"

definition sendPrompt :: "string \<Rightarrow> provider \<Rightarrow> provider" where
  "sendPrompt prompt s =
    (case wsRef s of
       None \<Rightarrow> addMessage notConnected s
     | Some i \<Rightarrow>
        if readyState_of (sockets s) i \<noteq> Some OPEN then addMessage notConnected s
        else
          let s1 = addMessage
                     \<lparr>mtype = User, content = Some (JStr prompt), step = None, success = None,
                      stepNumber = None, totalSteps = None\<rparr> s
          in s1\<lparr>sent := sent s1 @
                  [(i, JObj [(''type'', JStr ''prompt''), (''content'', JStr prompt)])]\<rparr>)"

text \<open>
  \<^verbatim>\<open>handleSubmit\<close> of \<^verbatim>\<open>Home\<close>, the only caller of \<^verbatim>\<open>sendPrompt\<close>; an empty string
  is falsy.
\<close>

definition handleSubmit :: "provider \<Rightarrow> provider" where
  "handleSubmit s =
    (if trim (input s) \<noteq> [] \<and> status s = Some (JStr ''idle'')
     then (sendPrompt (trim (input s)) s)\<lparr>input := []\<rparr>
     else s)"

subsection \<open>Events\<close>

text \<open>
  What can happen to the provider: its effect runs (mount) or is cleaned up; a socket
  opens, delivers a frame, reports an error or closes; a timer fires; the user types,
  submits the form or clears the transcript; a consumer of the context calls
  \<^verbatim>\<open>sendPrompt\<close>. A socket's events follow the WebSocket interface: it opens from
  CONNECTING, delivers frames while OPEN, and closes once. A timer fires only while it is
  pending. An event that cannot happen in a state leaves it as it is.
\<close>

datatype event =
  Effect
| Cleanup
| WsOpen nat
| WsMessage nat frame
| WsError nat
| WsClose nat
| Timeout nat
| SetInput string
| HandleSubmit
| SendPrompt string
| ClearMessages

fun provider_step :: "provider \<Rightarrow> event \<Rightarrow> provider" where
  "provider_step s Effect = connect s"
| "provider_step s Cleanup = cleanup s"
| "provider_step s (WsOpen i) =
     (if readyState_of (sockets s) i = Some CONNECTING
      then ws_onopen (s\<lparr>sockets := (sockets s)[i := OPEN]\<rparr>) else s)"
| "provider_step s (WsMessage i f) =
     (if readyState_of (sockets s) i = Some OPEN then ws_onmessage f s else s)"
| "provider_step s (WsError i) =
     (case readyState_of (sockets s) i of
        None \<Rightarrow> s
      | Some CLOSED \<Rightarrow> s
      | Some r \<Rightarrow> ws_onerror s)"
| "provider_step s (WsClose i) =
     (case readyState_of (sockets s) i of
        None \<Rightarrow> s
      | Some CLOSED \<Rightarrow> s
      | Some r \<Rightarrow> ws_onclose (s\<lparr>sockets := (sockets s)[i := CLOSED]\<rparr>))"
| "provider_step s (Timeout t) =
     (if t \<in> set (pending s) then reconnect (s\<lparr>pending := removeAll t (pending s)\<rparr>)
      else s)"
| "provider_step s (SetInput v) = s\<lparr>input := v\<rparr>"
| "provider_step s HandleSubmit = handleSubmit s"
| "provider_step s (SendPrompt p) = sendPrompt p s"
| "provider_step s ClearMessages = clearMessages s"

definition provider_run :: "provider \<Rightarrow> event list \<Rightarrow> provider" where
  "provider_run = foldl provider_step"

section \<open>The desktop shell: electron-app/app.js\<close>

subsection \<open>State\<close>

text \<open>
  The transcript is the list of children of \<^verbatim>\<open>#messages\<close>. A child is kept as its
  class and the pieces its \<^verbatim>\<open>innerHTML\<close> is built from: which of \<^verbatim>\<open>escapeHtml\<close> and
  \<^verbatim>\<open>formatContent\<close> produced the markup, from which values. The markup itself and
  the scrolling are presentation.
\<close>

datatype html =
  Escaped string
| StatusLine jsval
| Formatted jsval
| StepReport jsval jsval jsval "jsval option" "jsval option"

record node =
  className :: string
  innerHTML :: html

datatype callback = ReconnectTick | PingTick

text \<open>
  The globals \<^verbatim>\<open>ws\<close> and \<^verbatim>\<open>reconnectInterval\<close>, the elements the script writes, and
  the environment: \<open>app_sockets\<close> as for the browser client, \<open>intervals\<close> the period and
  callback of every \<^verbatim>\<open>setInterval\<close> call so far (an interval is named by its
  position), \<open>active\<close> the intervals not cleared.
\<close>

record app =
  ws :: "nat option"
  reconnectInterval :: "nat option"
  messagesContainer :: "node list"
  messageInput :: string
  statusDot :: string
  statusText :: string
  app_sockets :: "readyState list"
  intervals :: "(nat \<times> callback) list"
  active :: "nat list"
  app_sent :: "(nat \<times> jvalue) list"
  app_console :: "diag list"

text \<open>
  The page before the script runs. \<^verbatim>\<open>index.html\<close> gives the status indicator its
  first class and text; the script overwrites both at the first socket event and never
  reads them.
\<close>

definition page :: app where
  "page =
    \<lparr>ws = None, reconnectInterval = None, messagesContainer = [], messageInput = [],
     statusDot = [], statusText = [], app_sockets = [], intervals = [], active = [],
     app_sent = [], app_console = []\<rparr>"

subsection \<open>Handlers\<close>

definition updateStatus :: "string \<Rightarrow> string \<Rightarrow> app \<Rightarrow> app" where
  "updateStatus st text s = s\<lparr>statusDot := ''status-dot '' @ st, statusText := text\<rparr>"

definition appendChild :: "node \<Rightarrow> app \<Rightarrow> app" where
  "appendChild n s = s\<lparr>messagesContainer := messagesContainer s @ [n]\<rparr>"

definition addUserMessage :: "string \<Rightarrow> app \<Rightarrow> app" where
  "addUserMessage c = appendChild \<lparr>className = ''message user'', innerHTML = Escaped c\<rparr>"

definition addAgentMessage :: "jsval \<Rightarrow> app \<Rightarrow> app" where
  "addAgentMessage c = appendChild \<lparr>className = ''message agent'', innerHTML = Formatted c\<rparr>"

definition addStatusMessage :: "jsval \<Rightarrow> app \<Rightarrow> app" where
  "addStatusMessage c = appendChild \<lparr>className = ''message status'', innerHTML = StatusLine c\<rparr>"

definition addResultMessage :: "jvalue \<Rightarrow> app \<Rightarrow> app" where
  "addResultMessage data =
    appendChild
      \<lparr>className = ''message '' @ (if truthy (field ''success'' data) then ''agent'' else ''error''),
       innerHTML =
         StepReport (field ''stepNumber'' data) (field ''totalSteps'' data) (field ''step'' data)
           (if truthy (field ''output'' data) then Some (field ''output'' data) else None)
           (if truthy (field ''error'' data) then Some (field ''error'' data) else None)\<rparr>"

definition addReflectionMessage :: "jvalue \<Rightarrow> app \<Rightarrow> app" where
  "addReflectionMessage data =
    appendChild \<lparr>className = ''message agent'', innerHTML = Formatted (field ''content'' data)\<rparr>"

definition addCompleteMessage :: "jvalue \<Rightarrow> app \<Rightarrow> app" where
  "addCompleteMessage data =
    appendChild \<lparr>className = ''message agent'', innerHTML = Formatted (field ''content'' data)\<rparr>"

text \<open>\<^verbatim>\<open>handleMessage\<close>; \<open>None\<close> when reading \<^verbatim>\<open>data.type\<close> throws.\<close>

definition handleMessage :: "jvalue \<Rightarrow> app \<Rightarrow> app option" where
  "handleMessage data s =
    (case getprop ''type'' data of
       None \<Rightarrow> None
     | Some messageType \<Rightarrow>
        Some
         (if messageType = Some (JStr ''status'') then addStatusMessage (field ''content'' data) s
          else if messageType = Some (JStr ''agent'') then addAgentMessage (field ''content'' data) s
          else if messageType = Some (JStr ''result'') then addResultMessage data s
          else if messageType = Some (JStr ''reflection'') then addReflectionMessage data s
          else if messageType = Some (JStr ''complete'') then addCompleteMessage data s
          else if messageType = Some (JStr ''pong'') then
            s\<lparr>app_console := app_console s @ [Log ''Pong received'']\<rparr>
          else s\<lparr>app_console := app_console s @ [LogValue ''Unknown message type:'' messageType]\<rparr>))"

definition app_connect :: "app \<Rightarrow> app" where
  "app_connect s =
    s\<lparr>app_sockets := app_sockets s @ [CONNECTING], ws := Some (length (app_sockets s))\<rparr>"

definition app_onopen :: "app \<Rightarrow> app" where
  "app_onopen s =
    (let s1 = updateStatus ''connected'' ''Connected''
                (s\<lparr>app_console := app_console s @ [Log ''Connected to ArbiterAI'']\<rparr>)
     in case reconnectInterval s1 of
          None \<Rightarrow> s1
        | Some t \<Rightarrow> s1\<lparr>active := removeAll t (active s1)\<rparr>)"

definition app_onmessage :: "frame \<Rightarrow> app \<Rightarrow> app" where
  "app_onmessage f s =
    (case f of
       Malformed \<Rightarrow> s\<lparr>app_console := app_console s @ [Error ''Error parsing message:'']\<rparr>
     | Json data \<Rightarrow>
        (case handleMessage data s of
           None \<Rightarrow> s\<lparr>app_console := app_console s @ [Error ''Error parsing message:'']\<rparr>
         | Some s' \<Rightarrow> s'))"

definition app_onerror :: "app \<Rightarrow> app" where
  "app_onerror s =
    updateStatus ''disconnected'' ''Connection error''
      (s\<lparr>app_console := app_console s @ [Error ''WebSocket error:'']\<rparr>)"

definition app_onclose :: "app \<Rightarrow> app" where
  "app_onclose s =
    (let s1 = updateStatus ''disconnected'' ''Disconnected''
                (s\<lparr>app_console := app_console s @ [Log ''Disconnected from ArbiterAI'']\<rparr>)
     in s1\<lparr>intervals := intervals s1 @ [(3000, ReconnectTick)],
           active := active s1 @ [length (intervals s1)],
           reconnectInterval := Some (length (intervals s1))\<rparr>)"

text \<open>The two interval callbacks: the one of \<^verbatim>\<open>ws.onclose\<close> and the heartbeat.\<close>

definition reconnectTick :: "app \<Rightarrow> app" where
  "reconnectTick s = app_connect (updateStatus ''connecting'' ''Reconnecting...'' s)"

definition pingTick :: "app \<Rightarrow> app" where
  "pingTick s =
    (case ws s of
       None \<Rightarrow> s
     | Some i \<Rightarrow>
        if readyState_of (app_sockets s) i = Some OPEN
        then s\<lparr>app_sent := app_sent s @ [(i, JObj [(''type'', JStr ''ping'')])]\<rparr>
        else s)"

definition sendMessage :: "app \<Rightarrow> app" where
  "sendMessage s =
    (let message = trim (messageInput s)
     in case ws s of
          None \<Rightarrow> s
        | Some i \<Rightarrow>
           if message = [] \<or> readyState_of (app_sockets s) i \<noteq> Some OPEN then s
           else
             let s1 = addUserMessage message s
             in s1\<lparr>app_sent := app_sent s1 @
                     [(i, JObj [(''type'', JStr ''task''), (''content'', JStr message)])],
                   messageInput := []\<rparr>)"

text \<open>
  The top level of the script: \<^verbatim>\<open>connect()\<close>, then the heartbeat
  \<^verbatim>\<open>setInterval(..., 30000)\<close>, whose handle is not kept.
\<close>

definition startup :: "app \<Rightarrow> app" where
  "startup s =
    (let s1 = app_connect s
     in s1\<lparr>intervals := intervals s1 @ [(30000, PingTick)],
           active := active s1 @ [length (intervals s1)]\<rparr>)"

subsection \<open>Events\<close>

datatype app_event =
  AppOpen nat
| AppMessage nat frame
| AppError nat
| AppClose nat
| Tick nat
| TypeInput string
| Send

definition callback_of :: "(nat \<times> callback) list \<Rightarrow> nat \<Rightarrow> callback option" where
  "callback_of ivs t = (if t < length ivs then Some (snd (ivs ! t)) else None)"

fun app_step :: "app \<Rightarrow> app_event \<Rightarrow> app" where
  "app_step s (AppOpen i) =
     (if readyState_of (app_sockets s) i = Some CONNECTING
      then app_onopen (s\<lparr>app_sockets := (app_sockets s)[i := OPEN]\<rparr>) else s)"
| "app_step s (AppMessage i f) =
     (if readyState_of (app_sockets s) i = Some OPEN then app_onmessage f s else s)"
| "app_step s (AppError i) =
     (case readyState_of (app_sockets s) i of
        None \<Rightarrow> s
      | Some CLOSED \<Rightarrow> s
      | Some r \<Rightarrow> app_onerror s)"
| "app_step s (AppClose i) =
     (case readyState_of (app_sockets s) i of
        None \<Rightarrow> s
      | Some CLOSED \<Rightarrow> s
      | Some r \<Rightarrow> app_onclose (s\<lparr>app_sockets := (app_sockets s)[i := CLOSED]\<rparr>))"
| "app_step s (Tick t) =
     (if t \<in> set (active s) then
        (case callback_of (intervals s) t of
           None \<Rightarrow> s
         | Some ReconnectTick \<Rightarrow> reconnectTick s
         | Some PingTick \<Rightarrow> pingTick s)
      else s)"
| "app_step s (TypeInput v) = s\<lparr>messageInput := v\<rparr>"
| "app_step s Send = sendMessage s"

definition app_run :: "app \<Rightarrow> app_event list \<Rightarrow> app" where
  "app_run = foldl app_step"

section \<open>Frames by type, sequences of frames, and the scenarios of the claims\<close>

text \<open>A frame that parses to an object with the given \<^verbatim>\<open>type\<close> and further properties.\<close>

definition typed :: "string \<Rightarrow> (string \<times> jvalue) list \<Rightarrow> frame" where
  "typed t rest = Json (JObj ((''type'', JStr t) # rest))"

text \<open>The frame parses and its \<^verbatim>\<open>type\<close> is one of the given strings.\<close>

definition typeIn :: "string list \<Rightarrow> frame \<Rightarrow> bool" where
  "typeIn ts f =
    (case f of
       Malformed \<Rightarrow> False
     | Json data \<Rightarrow>
        (case getprop ''type'' data of
           None \<Rightarrow> False
         | Some t \<Rightarrow> t \<in> set (map (\<lambda>x. Some (JStr x)) ts)))"

text \<open>The message handlers over a sequence of frames, in arrival order.\<close>

definition dispatch :: "provider \<Rightarrow> frame list \<Rightarrow> provider" where
  "dispatch = foldl (\<lambda>s f. ws_onmessage f s)"

definition app_dispatch :: "app \<Rightarrow> frame list \<Rightarrow> app" where
  "app_dispatch = foldl (\<lambda>s f. app_onmessage f s)"

text \<open>The test of \<^verbatim>\<open>sendPrompt\<close>: there is a current socket and it is OPEN.\<close>

definition socketOpen :: "provider \<Rightarrow> bool" where
  "socketOpen s =
    (case wsRef s of None \<Rightarrow> False | Some i \<Rightarrow> readyState_of (sockets s) i = Some OPEN)"

definition app_socketOpen :: "app \<Rightarrow> bool" where
  "app_socketOpen s =
    (case ws s of None \<Rightarrow> False | Some i \<Rightarrow> readyState_of (app_sockets s) i = Some OPEN)"

text \<open>
  One failed connection of the browser client: the current socket closes, then the timer
  that \<^verbatim>\<open>ws.onclose\<close> left in \<^verbatim>\<open>reconnectTimeoutRef\<close> fires, if it is pending.
\<close>

definition closeAndRetry :: "provider \<Rightarrow> provider" where
  "closeAndRetry s =
    (case wsRef s of
       None \<Rightarrow> s
     | Some i \<Rightarrow>
        let s1 = provider_step s (WsClose i)
        in case reconnectTimeoutRef s1 of
             None \<Rightarrow> s1
           | Some t \<Rightarrow> provider_step s1 (Timeout t))"

text \<open>The same for the desktop shell, with the interval kept in \<^verbatim>\<open>reconnectInterval\<close>.\<close>

definition app_closeAndRetry :: "app \<Rightarrow> app" where
  "app_closeAndRetry s =
    (case ws s of
       None \<Rightarrow> s
     | Some i \<Rightarrow>
        let s1 = app_step s (AppClose i)
        in case reconnectInterval s1 of
             None \<Rightarrow> s1
           | Some t \<Rightarrow> app_step s1 (Tick t))"

text \<open>The client has a current socket that has not closed yet.\<close>

definition live :: "provider \<Rightarrow> bool" where
  "live s =
    (case wsRef s of
       None \<Rightarrow> False
     | Some i \<Rightarrow>
        readyState_of (sockets s) i = Some CONNECTING
        \<or> readyState_of (sockets s) i = Some OPEN
        \<or> readyState_of (sockets s) i = Some CLOSING)"

definition app_live :: "app \<Rightarrow> bool" where
  "app_live s =
    (case ws s of
       None \<Rightarrow> False
     | Some i \<Rightarrow>
        readyState_of (app_sockets s) i = Some CONNECTING
        \<or> readyState_of (app_sockets s) i = Some OPEN
        \<or> readyState_of (app_sockets s) i = Some CLOSING)"

text \<open>An event that delivers a frame whose \<^verbatim>\<open>type\<close> is \<^verbatim>\<open>status\<close>.\<close>

definition statusFrame :: "event \<Rightarrow> bool" where
  "statusFrame e = (case e of WsMessage i f \<Rightarrow> typeIn [''status''] f | _ \<Rightarrow> False)"

text \<open>The values of \<^verbatim>\<open>type AgentStatus = 'idle' | 'planning' | 'executing'\<close>.\<close>

definition AgentStatus :: "jsval list" where
  "AgentStatus = [Some (JStr ''idle''), Some (JStr ''planning''), Some (JStr ''executing'')]"

text \<open>
  The heartbeat of the desktop shell is in place: the first interval ever set is the
  30000 ms ping, it is active, and \<^verbatim>\<open>reconnectInterval\<close> does not hold its handle.
\<close>

definition heartbeat :: "app \<Rightarrow> bool" where
  "heartbeat s =
    (callback_of (intervals s) 0 = Some PingTick \<and> map fst (take 1 (intervals s)) = [30000]
     \<and> 0 \<in> set (active s) \<and> reconnectInterval s \<noteq> Some 0)"

text \<open>
  The log length that the specification gives for a sequence of inbound frames: the
  number of frames whose type is one of agent, result, reflection and complete.
\<close>

definition specLogged :: "frame list \<Rightarrow> nat" where
  "specLogged fs =
    length (filter (typeIn [''agent'', ''result'', ''reflection'', ''complete'']) fs)"

text \<open>An outbound frame, with the socket it went out on, whose type is \<^verbatim>\<open>prompt\<close>.\<close>

definition promptFrame :: "nat \<times> jvalue \<Rightarrow> bool" where
  "promptFrame x = (field ''type'' (snd x) = Some (JStr ''prompt''))"

section \<open>Reconnection\<close>

lemma live_socket:
  assumes "live s"
  obtains i where "wsRef s = Some i" and "i < length (sockets s)" and "sockets s ! i \<noteq> CLOSED"
  using assms
  by (auto simp: live_def readyState_of_def split: option.splits if_splits)

lemma close_live_socket:
  assumes "i < length (sockets s)" and "sockets s ! i \<noteq> CLOSED"
  shows "provider_step s (WsClose i) = ws_onclose (s\<lparr>sockets := (sockets s)[i := CLOSED]\<rparr>)"
  using assms by (cases "sockets s ! i") (simp_all add: readyState_of_def)

lemma ws_onclose_below:
  assumes "reconnectAttempts s < 5"
  shows "ws_onclose s =
    s\<lparr>console := console s @ [Log ''WebSocket disconnected'',
          Reconnecting (min (1000 * 2 ^ reconnectAttempts s) 10000) (reconnectAttempts s + 1)],
      isConnected := False, wsRef := None,
      timeouts := timeouts s @ [min (1000 * 2 ^ reconnectAttempts s) 10000],
      pending := pending s @ [length (timeouts s)],
      reconnectTimeoutRef := Some (length (timeouts s))\<rparr>"
  using assms by (simp add: ws_onclose_def maxReconnectAttempts_def Let_def)

lemma ws_onclose_exhausted:
  assumes "5 \<le> reconnectAttempts s"
  shows "ws_onclose s =
    s\<lparr>console := console s @ [Log ''WebSocket disconnected''],
      isConnected := False, wsRef := None, messages := messages s @ [connectionLost]\<rparr>"
  using assms by (simp add: ws_onclose_def maxReconnectAttempts_def Let_def addMessage_def)

lemma closeAndRetry_below:
  assumes "live s" and "reconnectAttempts s < 5"
  shows "live (closeAndRetry s)
    \<and> reconnectAttempts (closeAndRetry s) = reconnectAttempts s + 1
    \<and> timeouts (closeAndRetry s) = timeouts s @ [min (1000 * 2 ^ reconnectAttempts s) 10000]
    \<and> messages (closeAndRetry s) = messages s
    \<and> reconnectTimeoutRef (closeAndRetry s) = Some (length (timeouts s))
    \<and> length (timeouts s) \<notin> set (pending (closeAndRetry s))"
proof -
  from assms(1) obtain i where i: "wsRef s = Some i" "i < length (sockets s)"
    "sockets s ! i \<noteq> CLOSED" by (rule live_socket)
  define s0 where "s0 = s\<lparr>sockets := (sockets s)[i := CLOSED]\<rparr>"
  define s1 where "s1 = ws_onclose s0"
  have a0: "reconnectAttempts s0 < 5" using assms(2) by (simp add: s0_def)
  have c: "provider_step s (WsClose i) = s1"
    using close_live_socket [OF i(2) i(3)] by (simp add: s1_def s0_def)
  have r: "reconnectTimeoutRef s1 = Some (length (timeouts s))"
    unfolding s1_def ws_onclose_below [OF a0] by (simp add: s0_def)
  have p: "length (timeouts s) \<in> set (pending s1)"
    unfolding s1_def ws_onclose_below [OF a0] by (simp add: s0_def)
  have e: "closeAndRetry s = reconnect (s1\<lparr>pending := removeAll (length (timeouts s)) (pending s1)\<rparr>)"
    using i(1) c r p by (simp add: closeAndRetry_def)
  show ?thesis
    unfolding e s1_def ws_onclose_below [OF a0]
    by (simp add: s0_def reconnect_def connect_def live_def readyState_of_def nth_append)
qed

lemma closeAndRetry_exhausted:
  assumes "live s" and "5 \<le> reconnectAttempts s"
    and "reconnectTimeoutRef s = Some t" and "t \<notin> set (pending s)"
  shows "timeouts (closeAndRetry s) = timeouts s
    \<and> pending (closeAndRetry s) = pending s
    \<and> messages (closeAndRetry s) = messages s @ [connectionLost]
    \<and> wsRef (closeAndRetry s) = None"
proof -
  from assms(1) obtain i where i: "wsRef s = Some i" "i < length (sockets s)"
    "sockets s ! i \<noteq> CLOSED" by (rule live_socket)
  define s0 where "s0 = s\<lparr>sockets := (sockets s)[i := CLOSED]\<rparr>"
  define s1 where "s1 = ws_onclose s0"
  have a0: "5 \<le> reconnectAttempts s0" using assms(2) by (simp add: s0_def)
  have c: "provider_step s (WsClose i) = s1"
    using close_live_socket [OF i(2) i(3)] by (simp add: s1_def s0_def)
  have r: "reconnectTimeoutRef s1 = Some t \<and> t \<notin> set (pending s1)"
    unfolding s1_def ws_onclose_exhausted [OF a0] using assms(3,4) by (simp add: s0_def)
  have e: "closeAndRetry s = s1"
    using i(1) c r by (simp add: closeAndRetry_def)
  show ?thesis
    unfolding e s1_def ws_onclose_exhausted [OF a0] by (simp add: s0_def)
qed

lemma app_live_socket:
  assumes "app_live s"
  obtains i where "ws s = Some i" and "i < length (app_sockets s)"
    and "app_sockets s ! i \<noteq> CLOSED"
  using assms
  by (auto simp: app_live_def readyState_of_def split: option.splits if_splits)

lemma close_app_live_socket:
  assumes "i < length (app_sockets s)" and "app_sockets s ! i \<noteq> CLOSED"
  shows "app_step s (AppClose i) = app_onclose (s\<lparr>app_sockets := (app_sockets s)[i := CLOSED]\<rparr>)"
  using assms by (cases "app_sockets s ! i") (simp_all add: readyState_of_def)

lemma app_onclose_eq:
  "app_onclose s =
    s\<lparr>app_console := app_console s @ [Log ''Disconnected from ArbiterAI''],
      statusDot := ''status-dot disconnected'', statusText := ''Disconnected'',
      intervals := intervals s @ [(3000, ReconnectTick)],
      active := active s @ [length (intervals s)],
      reconnectInterval := Some (length (intervals s))\<rparr>"
  by (simp add: app_onclose_def updateStatus_def Let_def)

lemma app_closeAndRetry_once:
  assumes "app_live s"
  shows "app_live (app_closeAndRetry s)
    \<and> intervals (app_closeAndRetry s) = intervals s @ [(3000, ReconnectTick)]
    \<and> messagesContainer (app_closeAndRetry s) = messagesContainer s"
proof -
  from assms obtain i where i: "ws s = Some i" "i < length (app_sockets s)"
    "app_sockets s ! i \<noteq> CLOSED" by (rule app_live_socket)
  define s0 where "s0 = s\<lparr>app_sockets := (app_sockets s)[i := CLOSED]\<rparr>"
  define s1 where "s1 = app_onclose s0"
  have c: "app_step s (AppClose i) = s1"
    using close_app_live_socket [OF i(2) i(3)] by (simp add: s1_def s0_def)
  have r: "reconnectInterval s1 = Some (length (intervals s))"
    unfolding s1_def app_onclose_eq by (simp add: s0_def)
  have t: "app_step s1 (Tick (length (intervals s))) = reconnectTick s1"
    unfolding s1_def app_onclose_eq by (simp add: s0_def callback_of_def)
  have e: "app_closeAndRetry s = reconnectTick s1"
    using i(1) c r t by (simp add: app_closeAndRetry_def)
  show ?thesis
    unfolding e s1_def app_onclose_eq
    by (simp add: s0_def reconnectTick_def app_connect_def updateStatus_def app_live_def
        readyState_of_def nth_append)
qed

lemma app_closeAndRetry_many:
  assumes "app_live s"
  shows "app_live ((app_closeAndRetry ^^ n) s)
    \<and> intervals ((app_closeAndRetry ^^ n) s) = intervals s @ replicate n (3000, ReconnectTick)
    \<and> messagesContainer ((app_closeAndRetry ^^ n) s) = messagesContainer s"
proof (induction n)
  case 0
  then show ?case using assms by simp
next
  case (Suc n)
  then show ?case
    using app_closeAndRetry_once [of "(app_closeAndRetry ^^ n) s"]
    by (simp add: replicate_append_same)
qed

lemma live_connect_initial: "live (connect initial)"
  by (simp add: live_def connect_def initial_def readyState_of_def)

lemma app_live_startup: "app_live (startup page)"
  by (simp add: app_live_def startup_def page_def app_connect_def readyState_of_def)

lemma five_failed_connections:
  assumes "live s" and "reconnectAttempts s = 0"
  shows "timeouts ((closeAndRetry ^^ 5) s) = timeouts s @ [1000, 2000, 4000, 8000, 10000]
    \<and> reconnectAttempts ((closeAndRetry ^^ 5) s) = 5
    \<and> messages ((closeAndRetry ^^ 5) s) = messages s
    \<and> timeouts (closeAndRetry ((closeAndRetry ^^ 5) s)) = timeouts ((closeAndRetry ^^ 5) s)
    \<and> pending (closeAndRetry ((closeAndRetry ^^ 5) s)) = pending ((closeAndRetry ^^ 5) s)
    \<and> messages (closeAndRetry ((closeAndRetry ^^ 5) s)) = messages s @ [connectionLost]
    \<and> wsRef (closeAndRetry ((closeAndRetry ^^ 5) s)) = None"
proof -
  define s1 where "s1 = closeAndRetry s"
  define s2 where "s2 = closeAndRetry s1"
  define s3 where "s3 = closeAndRetry s2"
  define s4 where "s4 = closeAndRetry s3"
  define s5 where "s5 = closeAndRetry s4"
  have e: "(closeAndRetry ^^ 5) s = s5"
    by (simp add: s5_def s4_def s3_def s2_def s1_def numeral_Bit1 numeral_Bit0)
  have 1: "live s1 \<and> reconnectAttempts s1 = 1 \<and> timeouts s1 = timeouts s @ [1000]
      \<and> messages s1 = messages s"
    unfolding s1_def using closeAndRetry_below [of s] assms by simp
  have 2: "live s2 \<and> reconnectAttempts s2 = 2 \<and> timeouts s2 = timeouts s @ [1000, 2000]
      \<and> messages s2 = messages s"
    unfolding s2_def using closeAndRetry_below [of s1] 1 by simp
  have 3: "live s3 \<and> reconnectAttempts s3 = 3 \<and> timeouts s3 = timeouts s @ [1000, 2000, 4000]
      \<and> messages s3 = messages s"
    unfolding s3_def using closeAndRetry_below [of s2] 2 by simp
  have 4: "live s4 \<and> reconnectAttempts s4 = 4
      \<and> timeouts s4 = timeouts s @ [1000, 2000, 4000, 8000] \<and> messages s4 = messages s"
    unfolding s4_def using closeAndRetry_below [of s3] 3 by simp
  have 5: "live s5 \<and> reconnectAttempts s5 = 5
      \<and> timeouts s5 = timeouts s @ [1000, 2000, 4000, 8000, 10000] \<and> messages s5 = messages s
      \<and> reconnectTimeoutRef s5 = Some (length (timeouts s4))
      \<and> length (timeouts s4) \<notin> set (pending s5)"
    unfolding s5_def using closeAndRetry_below [of s4] 4 by simp
  have 6: "timeouts (closeAndRetry s5) = timeouts s5
      \<and> pending (closeAndRetry s5) = pending s5
      \<and> messages (closeAndRetry s5) = messages s5 @ [connectionLost]
      \<and> wsRef (closeAndRetry s5) = None"
    using 5 closeAndRetry_exhausted [of s5 "length (timeouts s4)"] by simp
  show ?thesis using 5 6 e by simp
qed

text \<open>
  Claim C1, as stated, fails on the desktop shell: there every close sets a repeating
  3000 ms interval, a sixth retry is scheduled like the first five, and nothing is added
  to the transcript. From the start of the script, six failed connections in a row:
\<close>

theorem shell_retries_counterexample:
  "map fst (intervals ((app_closeAndRetry ^^ 6) (startup page))) =
     [30000, 3000, 3000, 3000, 3000, 3000, 3000]
   \<and> map fst (tl (intervals ((app_closeAndRetry ^^ 5) (startup page)))) \<noteq>
     [1000, 2000, 4000, 8000, 10000]
   \<and> messagesContainer ((app_closeAndRetry ^^ 6) (startup page)) = []"
proof -
  have i: "intervals (startup page) = [(30000, PingTick)]"
    by (simp add: startup_def page_def app_connect_def)
  have m: "messagesContainer (startup page) = []"
    by (simp add: startup_def page_def app_connect_def)
  have r6: "replicate 6 x = [x, x, x, x, x, x]" for x :: "'a"
    by (simp add: numeral_eq_Suc)
  have r5: "replicate 5 x = [x, x, x, x, x]" for x :: "'a"
    by (simp add: numeral_eq_Suc)
  show ?thesis
    using app_closeAndRetry_many [OF app_live_startup, of 6]
      app_closeAndRetry_many [OF app_live_startup, of 5]
    by (simp add: i m r5 r6 del: funpow.simps)
qed

text \<open>
  Claim C1, amended. In the browser client, from any state with a live socket and
  \<^verbatim>\<open>reconnectAttempts\<close> at 0, five failed connections in a row set timers of exactly
  1000, 2000, 4000, 8000 and 10000 ms, each \<open>min (1000 * 2 ^ attempts) 10000\<close>; the
  close after the fifth retry sets no timer and appends the connection-lost notice to
  the transcript; \<^verbatim>\<open>ws.onopen\<close> resets the counter to 0. The desktop shell has no
  counter: after any number \<open>n\<close> of failed connections it has set \<open>n\<close> intervals of
  3000 ms and added nothing to its transcript.
\<close>

theorem reconnection_policy:
  assumes "live s" and "reconnectAttempts s = 0" and "app_live a"
  shows "timeouts ((closeAndRetry ^^ 5) s) = timeouts s @ [1000, 2000, 4000, 8000, 10000]
    \<and> reconnectAttempts ((closeAndRetry ^^ 5) s) = 5
    \<and> messages ((closeAndRetry ^^ 5) s) = messages s
    \<and> timeouts (closeAndRetry ((closeAndRetry ^^ 5) s)) = timeouts ((closeAndRetry ^^ 5) s)
    \<and> pending (closeAndRetry ((closeAndRetry ^^ 5) s)) = pending ((closeAndRetry ^^ 5) s)
    \<and> messages (closeAndRetry ((closeAndRetry ^^ 5) s)) = messages s @ [connectionLost]
    \<and> wsRef (closeAndRetry ((closeAndRetry ^^ 5) s)) = None
    \<and> reconnectAttempts (ws_onopen s') = 0
    \<and> intervals ((app_closeAndRetry ^^ n) a) = intervals a @ replicate n (3000, ReconnectTick)
    \<and> messagesContainer ((app_closeAndRetry ^^ n) a) = messagesContainer a"
  using five_failed_connections [OF assms(1,2)] app_closeAndRetry_many [OF assms(3), of n]
  by (simp add: ws_onopen_def)

theorem reconnection_policy_witness:
  "live (connect initial) \<and> reconnectAttempts (connect initial) = 0 \<and> app_live (startup page)
   \<and> timeouts ((closeAndRetry ^^ 5) (connect initial)) = [1000, 2000, 4000, 8000, 10000]
   \<and> timeouts (closeAndRetry ((closeAndRetry ^^ 5) (connect initial))) =
       [1000, 2000, 4000, 8000, 10000]
   \<and> messages (closeAndRetry ((closeAndRetry ^^ 5) (connect initial))) = [connectionLost]
   \<and> intervals ((app_closeAndRetry ^^ 2) (startup page)) =
       [(30000, PingTick), (3000, ReconnectTick), (3000, ReconnectTick)]"
proof -
  have a: "reconnectAttempts (connect initial) = 0"
    by (simp add: connect_def initial_def)
  have t: "timeouts (connect initial) = [] \<and> messages (connect initial) = []"
    by (simp add: connect_def initial_def)
  have i: "intervals (startup page) = [(30000, PingTick)]"
    by (simp add: startup_def page_def app_connect_def)
  show ?thesis
    using reconnection_policy [OF live_connect_initial a app_live_startup, of initial 2]
      live_connect_initial a app_live_startup t i
    by (simp add: numeral_2_eq_2 del: funpow.simps)
qed

section \<open>Inbound frames\<close>

lemma ws_onmessage_length:
  "length (messages (ws_onmessage f s)) =
     length (messages s) + (if typeIn [''agent'', ''result''] f then 1 else 0)"
proof (cases f)
  case Malformed
  then show ?thesis by (simp add: ws_onmessage_def typeIn_def)
next
  case (Json data)
  show ?thesis
  proof (cases "getprop ''type'' data")
    case None
    then show ?thesis using Json by (simp add: ws_onmessage_def typeIn_def)
  next
    case (Some t)
    then show ?thesis using Json by (simp add: ws_onmessage_def typeIn_def addMessage_def)
  qed
qed

lemma app_onmessage_length:
  "length (messagesContainer (app_onmessage f s)) =
     length (messagesContainer s) +
     (if typeIn [''status'', ''agent'', ''result'', ''reflection'', ''complete''] f then 1 else 0)"
proof (cases f)
  case Malformed
  then show ?thesis by (simp add: app_onmessage_def typeIn_def)
next
  case (Json data)
  show ?thesis
  proof (cases "getprop ''type'' data")
    case None
    then show ?thesis using Json by (simp add: app_onmessage_def handleMessage_def typeIn_def)
  next
    case (Some t)
    then show ?thesis using Json
      by (simp add: app_onmessage_def handleMessage_def typeIn_def appendChild_def
          addStatusMessage_def addAgentMessage_def addResultMessage_def
          addReflectionMessage_def addCompleteMessage_def)
  qed
qed

lemma dispatch_length:
  "length (messages (dispatch s fs)) =
     length (messages s) + length (filter (typeIn [''agent'', ''result'']) fs)"
proof (induction fs arbitrary: s)
  case Nil
  then show ?case by (simp add: dispatch_def)
next
  case (Cons f fs)
  have "dispatch s (f # fs) = dispatch (ws_onmessage f s) fs"
    by (simp add: dispatch_def)
  then show ?case
    using Cons [of "ws_onmessage f s"] ws_onmessage_length [of f s] by simp
qed

lemma app_dispatch_length:
  "length (messagesContainer (app_dispatch s fs)) =
     length (messagesContainer s) +
     length (filter (typeIn [''status'', ''agent'', ''result'', ''reflection'', ''complete'']) fs)"
proof (induction fs arbitrary: s)
  case Nil
  then show ?case by (simp add: app_dispatch_def)
next
  case (Cons f fs)
  have "app_dispatch s (f # fs) = app_dispatch (app_onmessage f s) fs"
    by (simp add: app_dispatch_def)
  then show ?case
    using Cons [of "app_onmessage f s"] app_onmessage_length [of f s] by simp
qed

text \<open>
  Claim C3, as stated, fails on both clients. The browser client drops a reflection
  frame, so its log stays empty where the claim counts one entry; the desktop shell
  appends a transcript entry for a status frame, where the claim counts none.
\<close>

theorem log_length_counterexample:
  "length (messages (dispatch initial [typed ''reflection'' [(''content'', JStr ''r'')]])) = 0
   \<and> specLogged [typed ''reflection'' [(''content'', JStr ''r'')]] = 1
   \<and> length (messagesContainer
        (app_dispatch (startup page) [typed ''status'' [(''content'', JStr ''planning'')]])) = 1
   \<and> specLogged [typed ''status'' [(''content'', JStr ''planning'')]] = 0"
  by (simp add: dispatch_def app_dispatch_def ws_onmessage_def app_onmessage_def
      handleMessage_def typed_def specLogged_def typeIn_def initial_def startup_def page_def
      app_connect_def addStatusMessage_def appendChild_def field_def)

text \<open>
  Claim C3, amended. For every sequence of inbound frames, the log of the browser client
  grows by the number of frames whose type is agent or result, on top of what was
  appended locally before; reflection, complete, status and pong frames add nothing
  there. The transcript of the desktop shell grows by the number of frames whose type is
  status, agent, result, reflection or complete; pong adds nothing; a reflection or a
  complete frame is appended exactly as an agent frame with the same content is, with
  no kind of its own.
\<close>

theorem log_length:
  "length (messages (dispatch s fs)) =
     length (messages s) + length (filter (typeIn [''agent'', ''result'']) fs)
   \<and> length (messagesContainer (app_dispatch a fs)) =
     length (messagesContainer a) +
     length (filter (typeIn [''status'', ''agent'', ''result'', ''reflection'', ''complete'']) fs)
   \<and> messages (ws_onmessage (typed ''reflection'' r) s) = messages s
   \<and> messages (ws_onmessage (typed ''complete'' r) s) = messages s
   \<and> messages (ws_onmessage (typed ''status'' r) s) = messages s
   \<and> messages (ws_onmessage (typed ''pong'' r) s) = messages s
   \<and> messagesContainer (app_onmessage (typed ''pong'' r) a) = messagesContainer a
   \<and> app_onmessage (typed ''reflection'' r) a = app_onmessage (typed ''agent'' r) a
   \<and> app_onmessage (typed ''complete'' r) a = app_onmessage (typed ''agent'' r) a
   \<and> messagesContainer (app_onmessage (typed ''agent'' r) a) =
       messagesContainer a @
       [\<lparr>className = ''message agent'', innerHTML = Formatted (map_of r ''content'')\<rparr>]"
proof -
  have b: "messages (ws_onmessage (typed ''reflection'' r) s) = messages s
      \<and> messages (ws_onmessage (typed ''complete'' r) s) = messages s
      \<and> messages (ws_onmessage (typed ''status'' r) s) = messages s
      \<and> messages (ws_onmessage (typed ''pong'' r) s) = messages s"
    by (simp add: ws_onmessage_def typed_def)
  have e: "messagesContainer (app_onmessage (typed ''pong'' r) a) = messagesContainer a
      \<and> app_onmessage (typed ''reflection'' r) a = app_onmessage (typed ''agent'' r) a
      \<and> app_onmessage (typed ''complete'' r) a = app_onmessage (typed ''agent'' r) a
      \<and> messagesContainer (app_onmessage (typed ''agent'' r) a) =
          messagesContainer a @
          [\<lparr>className = ''message agent'', innerHTML = Formatted (map_of r ''content'')\<rparr>]"
    by (simp add: app_onmessage_def handleMessage_def typed_def addReflectionMessage_def
        addCompleteMessage_def addAgentMessage_def appendChild_def field_def)
  show ?thesis
    using dispatch_length [of s fs] app_dispatch_length [of a fs] b e by simp
qed

text \<open>
  The scenario of the specification on the browser client: a planning status, three
  results and an idle status leave three entries, all results.
\<close>

theorem log_length_witness:
  "length (messages (dispatch initial
      [typed ''status'' [(''content'', JStr ''planning'')],
       typed ''result'' [(''content'', JStr ''a''), (''stepNumber'', JNum 1)],
       typed ''result'' [(''content'', JStr ''b''), (''stepNumber'', JNum 2)],
       typed ''result'' [(''content'', JStr ''c''), (''stepNumber'', JNum 3)],
       typed ''status'' [(''content'', JStr ''idle'')]])) = 3
   \<and> length (messagesContainer (app_dispatch (startup page)
      [typed ''status'' [(''content'', JStr ''planning'')],
       typed ''result'' [(''content'', JStr ''a''), (''stepNumber'', JNum 1)],
       typed ''result'' [(''content'', JStr ''b''), (''stepNumber'', JNum 2)],
       typed ''result'' [(''content'', JStr ''c''), (''stepNumber'', JNum 3)],
       typed ''status'' [(''content'', JStr ''idle'')]])) = 5"
  using log_length [of initial
      "[typed ''status'' [(''content'', JStr ''planning'')],
       typed ''result'' [(''content'', JStr ''a''), (''stepNumber'', JNum 1)],
       typed ''result'' [(''content'', JStr ''b''), (''stepNumber'', JNum 2)],
       typed ''result'' [(''content'', JStr ''c''), (''stepNumber'', JNum 3)],
       typed ''status'' [(''content'', JStr ''idle'')]]" "startup page"]
  by (simp add: typeIn_def typed_def initial_def startup_def page_def app_connect_def)

text \<open>
  Claim C4. A frame that does not parse is dropped with one line on the error console
  and nothing else changes, in both clients; so is a frame that parses to
  \<^verbatim>\<open>null\<close>, whose \<^verbatim>\<open>type\<close> cannot be read. A frame that does not parse followed
  by an agent frame appends exactly the entry of the agent frame.
\<close>

theorem malformed_frame_dropped:
  "ws_onmessage Malformed s =
     s\<lparr>console := console s @ [Error ''Error parsing WebSocket message:'']\<rparr>
   \<and> ws_onmessage (Json JNull) s = ws_onmessage Malformed s
   \<and> app_onmessage Malformed a =
     a\<lparr>app_console := app_console a @ [Error ''Error parsing message:'']\<rparr>
   \<and> app_onmessage (Json JNull) a = app_onmessage Malformed a
   \<and> messages (dispatch s [Malformed, typed ''agent'' [(''content'', JStr c)]]) =
       messages s @
       [\<lparr>mtype = Agent, content = Some (JStr c), step = None, success = None,
         stepNumber = None, totalSteps = None\<rparr>]
   \<and> messagesContainer (app_dispatch a [Malformed, typed ''agent'' [(''content'', JStr c)]]) =
       messagesContainer a @
       [\<lparr>className = ''message agent'', innerHTML = Formatted (Some (JStr c))\<rparr>]"
  by (simp add: ws_onmessage_def app_onmessage_def handleMessage_def dispatch_def
      app_dispatch_def typed_def field_def addMessage_def addAgentMessage_def appendChild_def)

text \<open>The scenario as events, from the start of each client.\<close>

theorem malformed_frame_dropped_witness:
  "messages (provider_run initial
      [Effect, WsOpen 0, WsMessage 0 Malformed,
       WsMessage 0 (typed ''agent'' [(''content'', JStr ''hello'')])]) =
    [\<lparr>mtype = Agent, content = Some (JStr ''hello''), step = None, success = None,
      stepNumber = None, totalSteps = None\<rparr>]
   \<and> status (provider_run initial [Effect, WsOpen 0, WsMessage 0 Malformed]) =
      Some (JStr ''idle'')
   \<and> isConnected (provider_run initial [Effect, WsOpen 0, WsMessage 0 Malformed])
   \<and> map className (messagesContainer (app_run (startup page)
      [AppOpen 0, AppMessage 0 Malformed,
       AppMessage 0 (typed ''agent'' [(''content'', JStr ''hello'')])])) =
    [''message agent'']"
  using malformed_frame_dropped [of "provider_run initial [Effect, WsOpen 0]"
      "app_run (startup page) [AppOpen 0]" "''hello''"]
  by (simp add: provider_run_def app_run_def initial_def page_def startup_def connect_def
      app_connect_def readyState_of_def ws_onopen_def app_onopen_def updateStatus_def
      ws_onmessage_def app_onmessage_def handleMessage_def dispatch_def app_dispatch_def
      typed_def field_def addMessage_def addAgentMessage_def appendChild_def)

section \<open>Submitting a prompt\<close>

lemma sendPrompt_closed:
  "\<not> socketOpen s \<Longrightarrow> sendPrompt p s = s\<lparr>messages := messages s @ [notConnected]\<rparr>"
  by (simp add: socketOpen_def sendPrompt_def addMessage_def split: option.splits)

lemma sendPrompt_open:
  assumes "wsRef s = Some i" and "readyState_of (sockets s) i = Some OPEN"
  shows "sendPrompt p s =
    s\<lparr>messages := messages s @
         [\<lparr>mtype = User, content = Some (JStr p), step = None, success = None,
           stepNumber = None, totalSteps = None\<rparr>],
      sent := sent s @ [(i, JObj [(''type'', JStr ''prompt''), (''content'', JStr p)])]\<rparr>"
  using assms by (simp add: sendPrompt_def addMessage_def Let_def)

lemma sendMessage_open:
  assumes "ws a = Some j" and "readyState_of (app_sockets a) j = Some OPEN"
    and "trim (messageInput a) \<noteq> []"
  shows "sendMessage a =
    a\<lparr>messagesContainer := messagesContainer a @
         [\<lparr>className = ''message user'', innerHTML = Escaped (trim (messageInput a))\<rparr>],
      app_sent := app_sent a @
         [(j, JObj [(''type'', JStr ''task''), (''content'', JStr (trim (messageInput a)))])],
      messageInput := []\<rparr>"
  using assms by (simp add: sendMessage_def addUserMessage_def appendChild_def Let_def)

lemma trim_hi: "trim ''hi'' = ''hi''"
  by (simp add: trim_def whiteSpace_def strip_all.simps)

lemma length_map_index: "length (map_index i f xs) = length xs"
  by (induction i f xs rule: map_index.induct) simp_all

lemma nth_map_index: "i < length xs \<Longrightarrow> map_index i f xs ! i = f (xs ! i)"
  by (induction i f xs rule: map_index.induct) simp_all

lemma closing_not_OPEN: "closing r \<noteq> OPEN"
  by (cases r) simp_all

lemma cleanup_not_open: "\<not> socketOpen (cleanup s)"
  by (auto simp: cleanup_def socketOpen_def readyState_of_def length_map_index nth_map_index
      closing_not_OPEN Let_def split: option.splits)

lemma link_ws_onmessage:
  "sockets (ws_onmessage f s) = sockets s \<and> wsRef (ws_onmessage f s) = wsRef s
   \<and> isConnected (ws_onmessage f s) = isConnected s \<and> sent (ws_onmessage f s) = sent s"
proof (cases f)
  case Malformed
  then show ?thesis by (simp add: ws_onmessage_def)
next
  case (Json data)
  then show ?thesis
    by (cases "getprop ''type'' data") (simp_all add: ws_onmessage_def addMessage_def)
qed

lemma link_sendPrompt:
  "sockets (sendPrompt p s) = sockets s \<and> wsRef (sendPrompt p s) = wsRef s
   \<and> isConnected (sendPrompt p s) = isConnected s"
  by (simp add: sendPrompt_def addMessage_def Let_def split: option.splits)

lemma socketOpen_cong:
  "sockets t = sockets s \<Longrightarrow> wsRef t = wsRef s \<Longrightarrow> socketOpen t = socketOpen s"
  by (simp add: socketOpen_def split: option.splits)

lemma open_connected_step:
  assumes "socketOpen s \<longrightarrow> isConnected s"
  shows "socketOpen (provider_step s e) \<longrightarrow> isConnected (provider_step s e)"
proof (cases e)
  case Effect
  then show ?thesis by (simp add: connect_def socketOpen_def readyState_of_def)
next
  case Cleanup
  then show ?thesis by (simp add: cleanup_not_open)
next
  case (WsOpen i)
  then show ?thesis using assms by (simp add: ws_onopen_def)
next
  case (WsMessage i f)
  then show ?thesis
    using assms link_ws_onmessage [of f s] socketOpen_cong [of "ws_onmessage f s" s] by simp
next
  case (WsError i)
  then show ?thesis using assms socketOpen_cong [of "ws_onerror s" s]
    by (simp add: ws_onerror_def split: option.splits readyState.splits)
next
  case (WsClose i)
  have "\<not> socketOpen (ws_onclose t)" for t
    by (simp add: ws_onclose_def socketOpen_def addMessage_def Let_def)
  then show ?thesis using assms WsClose
    by (simp split: option.splits readyState.splits)
next
  case (Timeout t)
  have "\<not> socketOpen (reconnect u)" for u
    by (simp add: reconnect_def connect_def socketOpen_def readyState_of_def)
  then show ?thesis using assms Timeout by simp
next
  case (SetInput v)
  then show ?thesis using assms socketOpen_cong [of "s\<lparr>input := v\<rparr>" s] by simp
next
  case HandleSubmit
  then show ?thesis
    using assms link_sendPrompt [of "trim (input s)" s]
      socketOpen_cong [of "(sendPrompt (trim (input s)) s)\<lparr>input := []\<rparr>" s]
    by (simp add: handleSubmit_def)
next
  case (SendPrompt p)
  then show ?thesis
    using assms link_sendPrompt [of p s] socketOpen_cong [of "sendPrompt p s" s] by simp
next
  case ClearMessages
  then show ?thesis using assms socketOpen_cong [of "clearMessages s" s]
    by (simp add: clearMessages_def)
qed

lemma open_connected_run:
  "(socketOpen s \<longrightarrow> isConnected s) \<Longrightarrow>
   socketOpen (provider_run s es) \<longrightarrow> isConnected (provider_run s es)"
proof (induction es arbitrary: s)
  case Nil
  then show ?case by (simp add: provider_run_def)
next
  case (Cons e es)
  then show ?case
    using open_connected_step [of s e] by (simp add: provider_run_def)
qed

lemma open_connected: "socketOpen (provider_run initial es) \<Longrightarrow> isConnected (provider_run initial es)"
  using open_connected_run [of initial es] by (simp add: socketOpen_def initial_def)

text \<open>
  Claim C5, as stated, fails on the browser client. Before the first socket has opened
  \<^verbatim>\<open>isConnected\<close> is false, and \<^verbatim>\<open>sendPrompt\<close> then changes the log: it appends the
  not-connected notice. And \<^verbatim>\<open>sendPrompt\<close> itself does not look at the status: on
  an open socket it sends while the status is executing.
\<close>

theorem rejected_submission_counterexample:
  "\<not> isConnected (provider_run initial [Effect])
   \<and> messages (provider_run initial [Effect]) = []
   \<and> messages (provider_run initial [Effect, SendPrompt ''hi'']) = [notConnected]
   \<and> status (provider_run initial
        [Effect, WsOpen 0, WsMessage 0 (typed ''status'' [(''content'', JStr ''executing'')])]) =
      Some (JStr ''executing'')
   \<and> sent (provider_run initial
        [Effect, WsOpen 0, WsMessage 0 (typed ''status'' [(''content'', JStr ''executing'')]),
         SendPrompt ''hi'']) =
      [(0, JObj [(''type'', JStr ''prompt''), (''content'', JStr ''hi'')])]"
  by (simp add: provider_run_def initial_def connect_def sendPrompt_def addMessage_def
      readyState_of_def ws_onopen_def ws_onmessage_def typed_def field_def)

text \<open>
  Claim C5, amended. A submission of \<^verbatim>\<open>Home\<close> made while the status is not idle, or
  with nothing but white space typed, is dropped: the state is left as it is, so no
  frame is sent and the log and the status are unchanged. A call of \<^verbatim>\<open>sendPrompt\<close>
  while the current socket is not OPEN sends no frame and leaves the status unchanged,
  and it appends one agent-typed not-connected notice to the log: the log is how the
  caller is told, nothing is thrown. Whenever \<^verbatim>\<open>isConnected\<close> is false in a run of the
  client, the current socket is not OPEN.
\<close>

theorem rejected_submission:
  "(status s \<noteq> Some (JStr ''idle'') \<longrightarrow> handleSubmit s = s)
   \<and> (trim (input s) = [] \<longrightarrow> handleSubmit s = s)
   \<and> (\<not> socketOpen s \<longrightarrow>
        sendPrompt p s = s\<lparr>messages := messages s @ [notConnected]\<rparr>)
   \<and> (\<not> socketOpen s \<and> status s = Some (JStr ''idle'') \<and> trim (input s) \<noteq> [] \<longrightarrow>
        handleSubmit s = s\<lparr>messages := messages s @ [notConnected], input := []\<rparr>)
   \<and> (\<not> isConnected (provider_run initial es) \<longrightarrow> \<not> socketOpen (provider_run initial es))"
proof -
  have 1: "status s \<noteq> Some (JStr ''idle'') \<longrightarrow> handleSubmit s = s"
    by (simp add: handleSubmit_def)
  have 2: "trim (input s) = [] \<longrightarrow> handleSubmit s = s"
    by (simp add: handleSubmit_def)
  have 3: "\<not> socketOpen s \<longrightarrow> sendPrompt p s = s\<lparr>messages := messages s @ [notConnected]\<rparr>"
    using sendPrompt_closed [of s p] by simp
  have 4: "\<not> socketOpen s \<and> status s = Some (JStr ''idle'') \<and> trim (input s) \<noteq> [] \<longrightarrow>
        handleSubmit s = s\<lparr>messages := messages s @ [notConnected], input := []\<rparr>"
    using sendPrompt_closed [of s "trim (input s)"] by (simp add: handleSubmit_def)
  have 5: "\<not> isConnected (provider_run initial es) \<longrightarrow> \<not> socketOpen (provider_run initial es)"
    using open_connected [of es] by blast
  show ?thesis using 1 2 3 4 5 by blast
qed

theorem rejected_submission_witness:
  "status (initial\<lparr>status := Some (JStr ''executing''), input := ''hi''\<rparr>) \<noteq> Some (JStr ''idle'')
   \<and> handleSubmit (initial\<lparr>status := Some (JStr ''executing''), input := ''hi''\<rparr>) =
       initial\<lparr>status := Some (JStr ''executing''), input := ''hi''\<rparr>
   \<and> \<not> socketOpen (initial\<lparr>input := ''hi''\<rparr>)
   \<and> status (initial\<lparr>input := ''hi''\<rparr>) = Some (JStr ''idle'')
   \<and> trim (input (initial\<lparr>input := ''hi''\<rparr>)) \<noteq> []
   \<and> handleSubmit (initial\<lparr>input := ''hi''\<rparr>) = initial\<lparr>messages := [notConnected]\<rparr>
   \<and> \<not> isConnected (provider_run initial [Effect])
   \<and> \<not> socketOpen (provider_run initial [Effect])"
proof -
  have a: "status (initial\<lparr>status := Some (JStr ''executing''), input := ''hi''\<rparr>) \<noteq>
      Some (JStr ''idle'')"
    by (simp add: initial_def)
  have b: "\<not> socketOpen (initial\<lparr>input := ''hi''\<rparr>)
      \<and> status (initial\<lparr>input := ''hi''\<rparr>) = Some (JStr ''idle'')
      \<and> trim (input (initial\<lparr>input := ''hi''\<rparr>)) \<noteq> []"
    by (simp add: initial_def socketOpen_def trim_hi)
  have c: "\<not> isConnected (provider_run initial [Effect])"
    by (simp add: provider_run_def initial_def connect_def)
  have d: "(initial\<lparr>input := ''hi''\<rparr>)\<lparr>messages := messages (initial\<lparr>input := ''hi''\<rparr>) @ [notConnected],
      input := []\<rparr> = initial\<lparr>messages := [notConnected]\<rparr>"
    by (simp add: initial_def)
  show ?thesis
    using rejected_submission
      [of "initial\<lparr>status := Some (JStr ''executing''), input := ''hi''\<rparr>" "''hi''" "[Effect]"]
      rejected_submission [of "initial\<lparr>input := ''hi''\<rparr>" "''hi''" "[Effect]"] a b c d
    by simp
qed

text \<open>
  Claim C6, as stated, fails on the desktop shell: the frame that \<^verbatim>\<open>sendMessage\<close>
  transmits has the type \<^verbatim>\<open>task\<close>, not \<^verbatim>\<open>prompt\<close>.
\<close>

theorem accepted_submission_counterexample:
  "map snd (app_sent (app_run (startup page) [AppOpen 0, TypeInput ''hi'', Send])) =
     [JObj [(''type'', JStr ''task''), (''content'', JStr ''hi'')]]
   \<and> map snd (app_sent (app_run (startup page) [AppOpen 0, TypeInput ''hi'', Send])) \<noteq>
     [JObj [(''type'', JStr ''prompt''), (''content'', JStr ''hi'')]]"
  by (simp add: app_run_def startup_def page_def app_connect_def readyState_of_def
      app_onopen_def updateStatus_def sendMessage_def addUserMessage_def appendChild_def
      trim_hi Let_def)

text \<open>
  Claim C6, amended. Where the current socket is OPEN, \<^verbatim>\<open>sendPrompt\<close> of the browser
  client appends a user entry carrying the text to the log and then sends exactly one
  frame, \<^verbatim>\<open>{type: "prompt", content: text}\<close>, on that socket; through \<^verbatim>\<open>Home\<close>, with
  the status idle, the text is the trimmed input. \<^verbatim>\<open>sendMessage\<close> of the desktop shell,
  with a trimmed input that is not empty, appends a user entry carrying it to the
  transcript and then sends exactly one frame, \<^verbatim>\<open>{type: "task", content: text}\<close>. In
  both, nothing else changes but the input being emptied: no status is set.
\<close>

theorem accepted_submission:
  "(wsRef s = Some i \<and> readyState_of (sockets s) i = Some OPEN \<longrightarrow>
      sendPrompt p s =
        s\<lparr>messages := messages s @
             [\<lparr>mtype = User, content = Some (JStr p), step = None, success = None,
               stepNumber = None, totalSteps = None\<rparr>],
          sent := sent s @ [(i, JObj [(''type'', JStr ''prompt''), (''content'', JStr p)])]\<rparr>)
   \<and> (wsRef s = Some i \<and> readyState_of (sockets s) i = Some OPEN
       \<and> status s = Some (JStr ''idle'') \<and> trim (input s) \<noteq> [] \<longrightarrow>
      handleSubmit s =
        s\<lparr>messages := messages s @
             [\<lparr>mtype = User, content = Some (JStr (trim (input s))), step = None,
               success = None, stepNumber = None, totalSteps = None\<rparr>],
          sent := sent s @
             [(i, JObj [(''type'', JStr ''prompt''), (''content'', JStr (trim (input s)))])],
          input := []\<rparr>)
   \<and> (ws a = Some j \<and> readyState_of (app_sockets a) j = Some OPEN
       \<and> trim (messageInput a) \<noteq> [] \<longrightarrow>
      sendMessage a =
        a\<lparr>messagesContainer := messagesContainer a @
             [\<lparr>className = ''message user'', innerHTML = Escaped (trim (messageInput a))\<rparr>],
          app_sent := app_sent a @
             [(j, JObj [(''type'', JStr ''task''),
                        (''content'', JStr (trim (messageInput a)))])],
          messageInput := []\<rparr>)"
  using sendPrompt_open [of s i p] sendPrompt_open [of s i "trim (input s)"]
    sendMessage_open [of a j]
  by (simp add: handleSubmit_def)

theorem accepted_submission_witness:
  "wsRef (provider_run initial [Effect, WsOpen 0]) = Some 0
   \<and> readyState_of (sockets (provider_run initial [Effect, WsOpen 0])) 0 = Some OPEN
   \<and> sent (sendPrompt ''hi'' (provider_run initial [Effect, WsOpen 0])) =
       [(0, JObj [(''type'', JStr ''prompt''), (''content'', JStr ''hi'')])]
   \<and> map mtype (messages (sendPrompt ''hi'' (provider_run initial [Effect, WsOpen 0]))) = [User]
   \<and> status (sendPrompt ''hi'' (provider_run initial [Effect, WsOpen 0])) = Some (JStr ''idle'')
   \<and> ws (app_run (startup page) [AppOpen 0, TypeInput ''hi'']) = Some 0
   \<and> readyState_of (app_sockets (app_run (startup page) [AppOpen 0, TypeInput ''hi''])) 0 =
       Some OPEN
   \<and> trim (messageInput (app_run (startup page) [AppOpen 0, TypeInput ''hi''])) \<noteq> []
   \<and> app_sent (sendMessage (app_run (startup page) [AppOpen 0, TypeInput ''hi''])) =
       [(0, JObj [(''type'', JStr ''task''), (''content'', JStr ''hi'')])]"
proof -
  have p: "provider_run initial [Effect, WsOpen 0] =
      initial\<lparr>sockets := [OPEN], wsRef := Some 0, isConnected := True,
        console := [Log ''WebSocket connected'']\<rparr>"
    by (simp add: provider_run_def initial_def connect_def readyState_of_def ws_onopen_def)
  have q: "app_run (startup page) [AppOpen 0, TypeInput ''hi''] =
      page\<lparr>ws := Some 0, app_sockets := [OPEN], intervals := [(30000, PingTick)],
        active := [0], app_console := [Log ''Connected to ArbiterAI''],
        statusDot := ''status-dot connected'', statusText := ''Connected'',
        messageInput := ''hi''\<rparr>"
    by (simp add: app_run_def startup_def page_def app_connect_def readyState_of_def
        app_onopen_def updateStatus_def)
  show ?thesis
    using accepted_submission [of "provider_run initial [Effect, WsOpen 0]" 0 "''hi''"
        "app_run (startup page) [AppOpen 0, TypeInput ''hi'']" 0]
    unfolding p q
    by (simp add: initial_def page_def readyState_of_def trim_hi)
qed

text \<open>
  Claim C10. In the browser client both error signals are entries of the log, typed as
  agent messages. \<^verbatim>\<open>sendPrompt\<close> on a socket that is not OPEN appends the notice
  "Not connected to server. Please wait for reconnection..." (after a cross mark,
  U+274C) and changes nothing else: no frame is sent. A close with the five attempts
  used up appends the notice "Connection lost. Please refresh the page to reconnect."
  (after the same mark), sets no timer, and has no other channel: besides the log only
  the console, \<^verbatim>\<open>isConnected\<close> and \<^verbatim>\<open>wsRef\<close> change. So after five failed
  connections in a row the next close leaves that notice as the last entry of the log.
\<close>

theorem notices_are_log_entries:
  "(\<not> socketOpen s \<longrightarrow>
      sendPrompt p s =
        s\<lparr>messages := messages s @
          [\<lparr>mtype = Agent,
            content = Some (JStr ([CHR 0xE2, CHR 0x9D, CHR 0x8C] @
              '' Not connected to server. Please wait for reconnection...'')),
            step = None, success = None, stepNumber = None, totalSteps = None\<rparr>]\<rparr>)
   \<and> (maxReconnectAttempts \<le> reconnectAttempts s \<longrightarrow>
      ws_onclose s =
        s\<lparr>console := console s @ [Log ''WebSocket disconnected''],
          isConnected := False, wsRef := None,
          messages := messages s @
          [\<lparr>mtype = Agent,
            content = Some (JStr ([CHR 0xE2, CHR 0x9D, CHR 0x8C] @
              '' Connection lost. Please refresh the page to reconnect.'')),
            step = None, success = None, stepNumber = None, totalSteps = None\<rparr>]\<rparr>)
   \<and> (live s \<and> reconnectAttempts s = 0 \<longrightarrow>
      messages (closeAndRetry ((closeAndRetry ^^ 5) s)) =
        messages s @
          [\<lparr>mtype = Agent,
            content = Some (JStr ([CHR 0xE2, CHR 0x9D, CHR 0x8C] @
              '' Connection lost. Please refresh the page to reconnect.'')),
            step = None, success = None, stepNumber = None, totalSteps = None\<rparr>]
      \<and> timeouts (closeAndRetry ((closeAndRetry ^^ 5) s)) =
        timeouts s @ [1000, 2000, 4000, 8000, 10000])
   \<and> maxReconnectAttempts = 5"
proof -
  have 1: "\<not> socketOpen s \<longrightarrow>
      sendPrompt p s =
        s\<lparr>messages := messages s @
          [\<lparr>mtype = Agent,
            content = Some (JStr ([CHR 0xE2, CHR 0x9D, CHR 0x8C] @
              '' Not connected to server. Please wait for reconnection...'')),
            step = None, success = None, stepNumber = None, totalSteps = None\<rparr>]\<rparr>"
    using sendPrompt_closed [of s p] by (simp add: notConnected_def crossMark_def)
  have 2: "maxReconnectAttempts \<le> reconnectAttempts s \<longrightarrow>
      ws_onclose s =
        s\<lparr>console := console s @ [Log ''WebSocket disconnected''],
          isConnected := False, wsRef := None,
          messages := messages s @
          [\<lparr>mtype = Agent,
            content = Some (JStr ([CHR 0xE2, CHR 0x9D, CHR 0x8C] @
              '' Connection lost. Please refresh the page to reconnect.'')),
            step = None, success = None, stepNumber = None, totalSteps = None\<rparr>]\<rparr>"
    using ws_onclose_exhausted [of s]
    by (simp add: maxReconnectAttempts_def connectionLost_def crossMark_def)
  have 3: "live s \<and> reconnectAttempts s = 0 \<longrightarrow>
      messages (closeAndRetry ((closeAndRetry ^^ 5) s)) =
        messages s @
          [\<lparr>mtype = Agent,
            content = Some (JStr ([CHR 0xE2, CHR 0x9D, CHR 0x8C] @
              '' Connection lost. Please refresh the page to reconnect.'')),
            step = None, success = None, stepNumber = None, totalSteps = None\<rparr>]
      \<and> timeouts (closeAndRetry ((closeAndRetry ^^ 5) s)) =
        timeouts s @ [1000, 2000, 4000, 8000, 10000]"
    using five_failed_connections [of s] by (simp add: connectionLost_def crossMark_def)
  show ?thesis using 1 2 3 by (simp add: maxReconnectAttempts_def)
qed

text \<open>
  From the start of the client: a prompt sent before the socket has opened, and six
  failed connections in a row.
\<close>

theorem notices_are_log_entries_witness:
  "\<not> socketOpen (provider_run initial [Effect])
   \<and> map content (messages (provider_run initial [Effect, SendPrompt ''hi''])) =
       [Some (JStr ([CHR 0xE2, CHR 0x9D, CHR 0x8C] @
          '' Not connected to server. Please wait for reconnection...''))]
   \<and> sent (provider_run initial [Effect, SendPrompt ''hi'']) = []
   \<and> maxReconnectAttempts \<le> reconnectAttempts (initial\<lparr>reconnectAttempts := 5\<rparr>)
   \<and> map content (messages (ws_onclose (initial\<lparr>reconnectAttempts := 5\<rparr>))) =
       [Some (JStr ([CHR 0xE2, CHR 0x9D, CHR 0x8C] @
          '' Connection lost. Please refresh the page to reconnect.''))]
   \<and> timeouts (ws_onclose (initial\<lparr>reconnectAttempts := 5\<rparr>)) = []
   \<and> live (connect initial) \<and> reconnectAttempts (connect initial) = 0
   \<and> map mtype (messages (closeAndRetry ((closeAndRetry ^^ 5) (connect initial)))) = [Agent]
   \<and> map content (messages (closeAndRetry ((closeAndRetry ^^ 5) (connect initial)))) =
       [Some (JStr ([CHR 0xE2, CHR 0x9D, CHR 0x8C] @
          '' Connection lost. Please refresh the page to reconnect.''))]"
proof -
  have r1: "provider_run initial [Effect] = connect initial"
    by (simp add: provider_run_def)
  have r2: "provider_run initial [Effect, SendPrompt ''hi''] = sendPrompt ''hi'' (connect initial)"
    by (simp add: provider_run_def)
  have a: "\<not> socketOpen (connect initial)"
    by (simp add: socketOpen_def connect_def initial_def readyState_of_def)
  have b: "maxReconnectAttempts \<le> reconnectAttempts (initial\<lparr>reconnectAttempts := 5\<rparr>)"
    by (simp add: maxReconnectAttempts_def)
  have c: "reconnectAttempts (connect initial) = 0"
    by (simp add: connect_def initial_def)
  have m: "messages (connect initial) = [] \<and> sent (connect initial) = []
      \<and> messages initial = [] \<and> timeouts initial = []"
    by (simp add: connect_def initial_def)
  have n1: "sendPrompt ''hi'' (connect initial) =
      (connect initial)\<lparr>messages := messages (connect initial) @
          [\<lparr>mtype = Agent,
            content = Some (JStr ([CHR 0xE2, CHR 0x9D, CHR 0x8C] @
              '' Not connected to server. Please wait for reconnection...'')),
            step = None, success = None, stepNumber = None, totalSteps = None\<rparr>]\<rparr>"
    using notices_are_log_entries [of "connect initial" "''hi''"] a by blast
  have n2: "ws_onclose (initial\<lparr>reconnectAttempts := 5\<rparr>) =
      (initial\<lparr>reconnectAttempts := 5\<rparr>)\<lparr>console :=
          console (initial\<lparr>reconnectAttempts := 5\<rparr>) @ [Log ''WebSocket disconnected''],
          isConnected := False, wsRef := None,
          messages := messages (initial\<lparr>reconnectAttempts := 5\<rparr>) @
          [\<lparr>mtype = Agent,
            content = Some (JStr ([CHR 0xE2, CHR 0x9D, CHR 0x8C] @
              '' Connection lost. Please refresh the page to reconnect.'')),
            step = None, success = None, stepNumber = None, totalSteps = None\<rparr>]\<rparr>"
    using notices_are_log_entries [of "initial\<lparr>reconnectAttempts := 5\<rparr>" "''hi''"] b
    by blast
  have n3: "messages (closeAndRetry ((closeAndRetry ^^ 5) (connect initial))) =
        messages (connect initial) @
          [\<lparr>mtype = Agent,
            content = Some (JStr ([CHR 0xE2, CHR 0x9D, CHR 0x8C] @
              '' Connection lost. Please refresh the page to reconnect.'')),
            step = None, success = None, stepNumber = None, totalSteps = None\<rparr>]"
    using notices_are_log_entries [of "connect initial" "''hi''"] live_connect_initial c
    by blast
  show ?thesis
    unfolding r1 r2 n1 n2 n3 using a b c m live_connect_initial by simp
qed

section \<open>Status\<close>

lemma status_ws_onmessage:
  assumes "status (ws_onmessage f s) \<noteq> status s"
  shows "typeIn [''status''] f"
proof (cases f)
  case Malformed
  then show ?thesis using assms by (simp add: ws_onmessage_def)
next
  case (Json data)
  show ?thesis
  proof (cases "getprop ''type'' data")
    case None
    then show ?thesis using Json assms by (simp add: ws_onmessage_def)
  next
    case (Some t)
    then show ?thesis using Json assms
      by (simp add: ws_onmessage_def typeIn_def addMessage_def split: if_splits)
  qed
qed

lemma status_sendPrompt: "status (sendPrompt p s) = status s"
  by (simp add: sendPrompt_def addMessage_def Let_def split: option.splits)

lemma status_ws_onclose: "status (ws_onclose s) = status s"
  by (simp add: ws_onclose_def addMessage_def Let_def)

lemma status_cleanup: "status (cleanup s) = status s"
  by (simp add: cleanup_def Let_def split: option.splits)

lemma status_step:
  assumes "status (provider_step s e) \<noteq> status s"
  shows "statusFrame e"
proof (cases e)
  case (WsMessage i f)
  then show ?thesis using assms status_ws_onmessage [of f s]
    by (simp add: statusFrame_def split: if_splits)
next
  case (WsClose i)
  then show ?thesis using assms
    by (simp add: status_ws_onclose split: option.splits readyState.splits)
next
  case (WsError i)
  then show ?thesis using assms
    by (simp add: ws_onerror_def split: option.splits readyState.splits)
next
  case HandleSubmit
  then show ?thesis using assms
    by (simp add: handleSubmit_def status_sendPrompt split: if_splits)
qed (use assms in \<open>simp_all add: connect_def status_cleanup ws_onopen_def reconnect_def
      status_sendPrompt clearMessages_def split: if_splits\<close>)

lemma status_run:
  "\<not> list_ex statusFrame es \<Longrightarrow> status (provider_run s es) = status s"
proof (induction es arbitrary: s)
  case Nil
  then show ?case by (simp add: provider_run_def)
next
  case (Cons e es)
  have "status (provider_step s e) = status s"
    using Cons.prems status_step [of s e] by auto
  moreover have "status (provider_run (provider_step s e) es) = status (provider_step s e)"
    using Cons by simp
  ultimately show ?case by (simp add: provider_run_def)
qed

text \<open>
  Claim C7, as stated, fails on the browser client: a status frame whose content is
  none of idle, planning and executing changes the status all the same, and a status
  frame that carries the current value changes nothing.
\<close>

theorem status_frame_counterexample:
  "status (provider_run initial [Effect, WsOpen 0]) = Some (JStr ''idle'')
   \<and> status (provider_run initial
        [Effect, WsOpen 0, WsMessage 0 (typed ''status'' [(''content'', JStr ''paused'')])]) =
      Some (JStr ''paused'')
   \<and> Some (JStr ''paused'') \<notin> set AgentStatus
   \<and> status (provider_run initial
        [Effect, WsOpen 0, WsMessage 0 (typed ''status'' [(''content'', JStr ''idle'')])]) =
      status (provider_run initial [Effect, WsOpen 0])"
  by (simp add: provider_run_def initial_def connect_def readyState_of_def ws_onopen_def
      ws_onmessage_def typed_def field_def AgentStatus_def)

text \<open>
  Claim C7, amended. The status changes only at an event that delivers a frame whose
  type is status: over any events with no such frame among them (socket events, timers,
  the effect and its cleanup, typing, submitting, \<^verbatim>\<open>sendPrompt\<close>, clearing) it stays
  what it was. A status frame delivered on an open socket sets the status to the content
  it carries, whatever that is: the value is not checked.
\<close>

theorem status_set_by_status_frames_only:
  "(status (provider_step s e) \<noteq> status s \<longrightarrow> statusFrame e)
   \<and> (\<not> list_ex statusFrame es \<longrightarrow> status (provider_run s es) = status s)
   \<and> (readyState_of (sockets s) i = Some OPEN
       \<and> getprop ''type'' data = Some (Some (JStr ''status'')) \<longrightarrow>
        status (provider_step s (WsMessage i (Json data))) = field ''content'' data)
   \<and> status (clearMessages s) = status s
   \<and> status (sendPrompt p s) = status s
   \<and> status (handleSubmit s) = status s"
  using status_step [of s e] status_run [of es s]
  by (auto simp: status_sendPrompt clearMessages_def handleSubmit_def ws_onmessage_def)

theorem status_set_by_status_frames_only_witness:
  "readyState_of (sockets (provider_run initial [Effect, WsOpen 0])) 0 = Some OPEN
   \<and> getprop ''type'' (JObj [(''type'', JStr ''status''), (''content'', JStr ''planning'')]) =
       Some (Some (JStr ''status''))
   \<and> status (provider_step (provider_run initial [Effect, WsOpen 0])
        (WsMessage 0 (Json (JObj [(''type'', JStr ''status''), (''content'', JStr ''planning'')])))) =
      Some (JStr ''planning'')
   \<and> \<not> list_ex statusFrame [SendPrompt ''x'', ClearMessages, WsClose 0, Timeout 0]
   \<and> status (provider_run (provider_run initial [Effect, WsOpen 0])
        [SendPrompt ''x'', ClearMessages, WsClose 0, Timeout 0]) = Some (JStr ''idle'')"
proof -
  have o: "readyState_of (sockets (provider_run initial [Effect, WsOpen 0])) 0 = Some OPEN"
    by (simp add: provider_run_def initial_def connect_def readyState_of_def ws_onopen_def)
  have n: "\<not> list_ex statusFrame [SendPrompt ''x'', ClearMessages, WsClose 0, Timeout 0]"
    by (simp add: statusFrame_def)
  have i: "status (provider_run initial [Effect, WsOpen 0]) = Some (JStr ''idle'')"
    by (simp add: provider_run_def initial_def connect_def readyState_of_def ws_onopen_def)
  show ?thesis
    using status_set_by_status_frames_only [of "provider_run initial [Effect, WsOpen 0]"
        "SendPrompt ''x''" "[SendPrompt ''x'', ClearMessages, WsClose 0, Timeout 0]" 0
        "JObj [(''type'', JStr ''status''), (''content'', JStr ''planning'')]" "''x''"] o n i
    by (simp add: field_def)
qed

section \<open>Heartbeat\<close>

lemma keep_app_onmessage:
  "intervals (app_onmessage f s) = intervals s \<and> active (app_onmessage f s) = active s
   \<and> reconnectInterval (app_onmessage f s) = reconnectInterval s
   \<and> app_sent (app_onmessage f s) = app_sent s
   \<and> ws (app_onmessage f s) = ws s \<and> app_sockets (app_onmessage f s) = app_sockets s"
proof (cases f)
  case Malformed
  then show ?thesis by (simp add: app_onmessage_def)
next
  case (Json data)
  then show ?thesis
    by (cases "getprop ''type'' data")
      (simp_all add: app_onmessage_def handleMessage_def appendChild_def
        addStatusMessage_def addAgentMessage_def addResultMessage_def addReflectionMessage_def
        addCompleteMessage_def)
qed

lemma heartbeat_cong:
  "intervals t = intervals s \<Longrightarrow> active t = active s \<Longrightarrow>
   reconnectInterval t = reconnectInterval s \<Longrightarrow> heartbeat t = heartbeat s"
  by (simp add: heartbeat_def)

lemma heartbeat_step:
  assumes "heartbeat s"
  shows "heartbeat (app_step s e)"
proof (cases e)
  case (AppOpen i)
  then show ?thesis using assms
    by (auto simp: heartbeat_def app_onopen_def updateStatus_def Let_def split: option.splits)
next
  case (AppMessage i f)
  then show ?thesis
    using assms keep_app_onmessage [of f s] heartbeat_cong [of "app_onmessage f s" s] by simp
next
  case (AppError i)
  then show ?thesis using assms
    by (simp add: heartbeat_def app_onerror_def updateStatus_def
        split: option.splits readyState.splits)
next
  case (AppClose i)
  have "heartbeat t \<Longrightarrow> heartbeat (app_onclose t)" for t
    by (cases "intervals t")
      (auto simp: heartbeat_def app_onclose_def updateStatus_def Let_def callback_of_def)
  moreover have "heartbeat (s\<lparr>app_sockets := x\<rparr>)" for x
    using assms by (simp add: heartbeat_def)
  ultimately show ?thesis using assms AppClose
    by (simp split: option.splits readyState.splits)
next
  case (Tick t)
  have "heartbeat (reconnectTick s)" using assms
    by (simp add: heartbeat_def reconnectTick_def app_connect_def updateStatus_def)
  moreover have "heartbeat (pingTick s)" using assms
    by (simp add: heartbeat_def pingTick_def split: option.splits)
  ultimately show ?thesis using assms Tick
    by (simp split: option.splits callback.splits)
next
  case (TypeInput v)
  then show ?thesis using assms by (simp add: heartbeat_def)
next
  case Send
  then show ?thesis using assms
    by (simp add: heartbeat_def sendMessage_def addUserMessage_def appendChild_def Let_def
        split: option.splits)
qed

lemma heartbeat_run: "heartbeat s \<Longrightarrow> heartbeat (app_run s es)"
proof (induction es arbitrary: s)
  case Nil
  then show ?case by (simp add: app_run_def)
next
  case (Cons e es)
  then show ?case using heartbeat_step [of s e] by (simp add: app_run_def)
qed

lemma heartbeat_startup: "heartbeat (startup page)"
  by (simp add: heartbeat_def startup_def page_def app_connect_def callback_of_def)

lemma heartbeat_tick:
  assumes "heartbeat a"
  shows "app_step a (Tick 0) = pingTick a"
  using assms by (simp add: heartbeat_def)

text \<open>
  Claim C8. In the desktop shell the script sets one interval of 30000 ms whose callback
  is the ping, and in every run it stays active: no handler clears it. Each time it
  fires with the current socket OPEN, exactly one frame \<^verbatim>\<open>{type: "ping"}\<close> is sent on
  that socket and nothing else changes; the shell keeps no status that could hold it
  back. With no open socket the tick does nothing. A pong frame changes nothing but the
  console, in the shell and in the browser client.
\<close>

theorem heartbeat_ping:
  "heartbeat (app_run (startup page) es)
   \<and> (heartbeat a \<and> ws a = Some i \<and> readyState_of (app_sockets a) i = Some OPEN \<longrightarrow>
        app_step a (Tick 0) = a\<lparr>app_sent := app_sent a @ [(i, JObj [(''type'', JStr ''ping'')])]\<rparr>)
   \<and> (heartbeat a \<and> \<not> app_socketOpen a \<longrightarrow> app_step a (Tick 0) = a)
   \<and> app_onmessage (typed ''pong'' r) a =
       a\<lparr>app_console := app_console a @ [Log ''Pong received'']\<rparr>
   \<and> ws_onmessage (typed ''pong'' r) s =
       s\<lparr>console := console s @ [LogValue ''Unknown message type:'' (Some (JStr ''pong''))]\<rparr>"
proof -
  have 1: "heartbeat (app_run (startup page) es)"
    using heartbeat_run [OF heartbeat_startup] .
  have 2: "heartbeat a \<and> ws a = Some i \<and> readyState_of (app_sockets a) i = Some OPEN \<longrightarrow>
        app_step a (Tick 0) = a\<lparr>app_sent := app_sent a @ [(i, JObj [(''type'', JStr ''ping'')])]\<rparr>"
    using heartbeat_tick [of a] by (simp add: pingTick_def)
  have 3: "heartbeat a \<and> \<not> app_socketOpen a \<longrightarrow> app_step a (Tick 0) = a"
    using heartbeat_tick [of a] by (simp add: pingTick_def app_socketOpen_def split: option.splits)
  have 4: "app_onmessage (typed ''pong'' r) a =
       a\<lparr>app_console := app_console a @ [Log ''Pong received'']\<rparr>"
    by (simp add: app_onmessage_def handleMessage_def typed_def)
  have 5: "ws_onmessage (typed ''pong'' r) s =
       s\<lparr>console := console s @ [LogValue ''Unknown message type:'' (Some (JStr ''pong''))]\<rparr>"
    by (simp add: ws_onmessage_def typed_def)
  show ?thesis using 1 2 3 4 5 by blast
qed

theorem heartbeat_ping_witness:
  "heartbeat (app_run (startup page) [AppOpen 0])
   \<and> ws (app_run (startup page) [AppOpen 0]) = Some 0
   \<and> readyState_of (app_sockets (app_run (startup page) [AppOpen 0])) 0 = Some OPEN
   \<and> app_sent (app_run (startup page) [AppOpen 0, Tick 0, Tick 0]) =
       [(0, JObj [(''type'', JStr ''ping'')]), (0, JObj [(''type'', JStr ''ping'')])]
   \<and> heartbeat (startup page) \<and> \<not> app_socketOpen (startup page)
   \<and> app_sent (app_run (startup page) [Tick 0]) = []
   \<and> map fst (intervals (startup page)) = [30000]"
proof -
  have q: "app_run (startup page) [AppOpen 0] =
      page\<lparr>ws := Some 0, app_sockets := [OPEN], intervals := [(30000, PingTick)],
        active := [0], app_console := [Log ''Connected to ArbiterAI''],
        statusDot := ''status-dot connected'', statusText := ''Connected''\<rparr>"
    by (simp add: app_run_def startup_def page_def app_connect_def readyState_of_def
        app_onopen_def updateStatus_def)
  have h: "heartbeat (app_run (startup page) [AppOpen 0])"
    using heartbeat_ping [of "[AppOpen 0]"] by simp
  have o: "ws (app_run (startup page) [AppOpen 0]) = Some 0
      \<and> readyState_of (app_sockets (app_run (startup page) [AppOpen 0])) 0 = Some OPEN"
    unfolding q by (simp add: readyState_of_def)
  have c: "\<not> app_socketOpen (startup page)"
    by (simp add: app_socketOpen_def startup_def page_def app_connect_def readyState_of_def)
  have t1: "app_step (app_run (startup page) [AppOpen 0]) (Tick 0) =
      (app_run (startup page) [AppOpen 0])\<lparr>app_sent :=
        app_sent (app_run (startup page) [AppOpen 0]) @ [(0, JObj [(''type'', JStr ''ping'')])]\<rparr>"
    using heartbeat_ping [of "[AppOpen 0]" "app_run (startup page) [AppOpen 0]" 0] h o by simp
  have t0: "app_step (startup page) (Tick 0) = startup page"
    using heartbeat_ping [of "[]" "startup page" 0] heartbeat_startup c by simp
  have r2: "app_run (startup page) [AppOpen 0, Tick 0, Tick 0] =
      app_step (app_step (app_run (startup page) [AppOpen 0]) (Tick 0)) (Tick 0)"
    by (simp add: app_run_def)
  have s2: "app_sent (app_run (startup page) [AppOpen 0, Tick 0, Tick 0]) =
       [(0, JObj [(''type'', JStr ''ping'')]), (0, JObj [(''type'', JStr ''ping'')])]"
    unfolding r2 t1 unfolding q by (simp add: page_def pingTick_def callback_of_def readyState_of_def)
  have r0: "app_run (startup page) [Tick 0] = app_step (startup page) (Tick 0)"
    by (simp add: app_run_def)
  have s0: "app_sent (app_run (startup page) [Tick 0]) = []"
    unfolding r0 t0 by (simp add: startup_def page_def app_connect_def)
  have iv: "map fst (intervals (startup page)) = [30000]"
    by (simp add: startup_def page_def app_connect_def)
  show ?thesis using h o s2 heartbeat_startup c s0 iv by simp
qed

section \<open>Teardown\<close>

text \<open>
  What the cleanup does: it clears the timer held in \<^verbatim>\<open>reconnectTimeoutRef\<close> and
  starts closing the current socket, and changes nothing else.
\<close>

lemma cleanup_effect:
  "pending (cleanup s) =
     (case reconnectTimeoutRef s of None \<Rightarrow> pending s | Some t \<Rightarrow> removeAll t (pending s))
   \<and> sockets (cleanup s) =
     (case wsRef s of None \<Rightarrow> sockets s | Some i \<Rightarrow> map_index i closing (sockets s))
   \<and> reconnectAttempts (cleanup s) = reconnectAttempts s
   \<and> wsRef (cleanup s) = wsRef s \<and> sent (cleanup s) = sent s
   \<and> timeouts (cleanup s) = timeouts s"
  by (simp add: cleanup_def Let_def split: option.splits)

text \<open>
  Claim C9 on the browser client, where it fails. The provider mounts, its socket opens,
  and the cleanup runs: no timer is pending and the socket is closing. The close event
  of that socket then runs \<^verbatim>\<open>ws.onclose\<close>, which sets a 1000 ms reconnect timer; the
  timer fires and \<^verbatim>\<open>connect\<close> makes a second socket; once that socket is open,
  \<^verbatim>\<open>sendPrompt\<close> sends a frame on it. A timer that is pending when the cleanup runs
  is cancelled, and firing it then does nothing.
\<close>

theorem reconnect_after_cleanup:
  "pending (provider_run initial [Effect, WsOpen 0, Cleanup]) = []
   \<and> sockets (provider_run initial [Effect, WsOpen 0, Cleanup]) = [CLOSING]
   \<and> timeouts (provider_run initial [Effect, WsOpen 0, Cleanup, WsClose 0]) = [1000]
   \<and> pending (provider_run initial [Effect, WsOpen 0, Cleanup, WsClose 0]) = [0]
   \<and> sockets (provider_run initial [Effect, WsOpen 0, Cleanup, WsClose 0, Timeout 0]) =
       [CLOSED, CONNECTING]
   \<and> wsRef (provider_run initial [Effect, WsOpen 0, Cleanup, WsClose 0, Timeout 0]) = Some 1
   \<and> sent (provider_run initial
        [Effect, WsOpen 0, Cleanup, WsClose 0, Timeout 0, WsOpen 1, SendPrompt ''hi'']) =
       [(1, JObj [(''type'', JStr ''prompt''), (''content'', JStr ''hi'')])]
   \<and> pending (provider_run initial [Effect, WsClose 0]) = [0]
   \<and> pending (provider_run initial [Effect, WsClose 0, Cleanup]) = []
   \<and> sockets (provider_run initial [Effect, WsClose 0, Cleanup, Timeout 0]) = [CLOSED]"
  by (simp add: provider_run_def initial_def connect_def cleanup_def readyState_of_def
      ws_onopen_def ws_onclose_def reconnect_def sendPrompt_def addMessage_def
      maxReconnectAttempts_def Let_def)

section \<open>The two clients compared\<close>

lemma sent_dispatch: "sent (dispatch s fs) = sent s"
proof (induction fs arbitrary: s)
  case Nil
  then show ?case by (simp add: dispatch_def)
next
  case (Cons f fs)
  have "dispatch s (f # fs) = dispatch (ws_onmessage f s) fs"
    by (simp add: dispatch_def)
  then show ?case using Cons [of "ws_onmessage f s"] link_ws_onmessage [of f s] by simp
qed

lemma app_sent_app_dispatch: "app_sent (app_dispatch s fs) = app_sent s"
proof (induction fs arbitrary: s)
  case Nil
  then show ?case by (simp add: app_dispatch_def)
next
  case (Cons f fs)
  have "app_dispatch s (f # fs) = app_dispatch (app_onmessage f s) fs"
    by (simp add: app_dispatch_def)
  then show ?case using Cons [of "app_onmessage f s"] keep_app_onmessage [of f s] by simp
qed

lemma typeIn_common:
  assumes "\<not> typeIn [''status'', ''reflection'', ''complete''] f"
  shows "typeIn [''status'', ''agent'', ''result'', ''reflection'', ''complete''] f =
    typeIn [''agent'', ''result''] f"
proof (cases f)
  case Malformed
  then show ?thesis by (simp add: typeIn_def)
next
  case (Json data)
  then show ?thesis using assms
    by (cases "getprop ''type'' data") (auto simp: typeIn_def)
qed

lemma filter_common:
  "list_all (\<lambda>f. \<not> typeIn [''status'', ''reflection'', ''complete''] f) fs \<Longrightarrow>
   filter (typeIn [''status'', ''agent'', ''result'', ''reflection'', ''complete'']) fs =
   filter (typeIn [''agent'', ''result'']) fs"
  by (induction fs) (simp_all add: typeIn_common)

lemma sent_sendPrompt:
  "sent (sendPrompt p s) = sent s
   \<or> (\<exists>i. sent (sendPrompt p s) =
        sent s @ [(i, JObj [(''type'', JStr ''prompt''), (''content'', JStr p)])])"
  by (simp add: sendPrompt_def addMessage_def Let_def split: option.splits)

lemma sent_ws_onclose: "sent (ws_onclose s) = sent s"
  by (simp add: ws_onclose_def addMessage_def Let_def)

lemma sent_cleanup: "sent (cleanup s) = sent s"
  by (simp add: cleanup_def Let_def split: option.splits)

lemma sent_step:
  "sent (provider_step s e) = sent s
   \<or> (\<exists>i p. sent (provider_step s e) =
        sent s @ [(i, JObj [(''type'', JStr ''prompt''), (''content'', JStr p)])])"
proof (cases e)
  case (WsMessage i f)
  then show ?thesis using link_ws_onmessage [of f s] by simp
next
  case (WsError i)
  then show ?thesis by (simp add: ws_onerror_def split: option.splits readyState.splits)
next
  case (WsClose i)
  then show ?thesis by (simp add: sent_ws_onclose split: option.splits readyState.splits)
next
  case HandleSubmit
  then show ?thesis using sent_sendPrompt [of "trim (input s)" s]
    by (auto simp: handleSubmit_def)
next
  case (SendPrompt p)
  then show ?thesis using sent_sendPrompt [of p s] by auto
qed (simp_all add: connect_def sent_cleanup ws_onopen_def reconnect_def clearMessages_def)

lemma prompts_step:
  assumes "list_all promptFrame (sent s)"
  shows "list_all promptFrame (sent (provider_step s e))"
  using assms sent_step [of s e] by (auto simp: promptFrame_def field_def)

lemma prompts_run:
  "list_all promptFrame (sent s) \<Longrightarrow> list_all promptFrame (sent (provider_run s es))"
proof (induction es arbitrary: s)
  case Nil
  then show ?case by (simp add: provider_run_def)
next
  case (Cons e es)
  then show ?case using prompts_step [of s e] by (simp add: provider_run_def)
qed

lemma ws_onmessage_status:
  "ws_onmessage (typed ''status'' r) s = s\<lparr>status := map_of r ''content''\<rparr>"
  by (simp add: ws_onmessage_def typed_def field_def)

lemma app_onmessage_status:
  "app_onmessage (typed ''status'' r) a =
    a\<lparr>messagesContainer := messagesContainer a @
      [\<lparr>className = ''message status'', innerHTML = StatusLine (map_of r ''content'')\<rparr>]\<rparr>"
  by (simp add: app_onmessage_def handleMessage_def typed_def field_def addStatusMessage_def
      appendChild_def)

lemma ws_onmessage_ignored:
  "ws_onmessage (typed ''reflection'' r) s =
     s\<lparr>console := console s @ [LogValue ''Unknown message type:'' (Some (JStr ''reflection''))]\<rparr>
   \<and> ws_onmessage (typed ''complete'' r) s =
     s\<lparr>console := console s @ [LogValue ''Unknown message type:'' (Some (JStr ''complete''))]\<rparr>"
  by (simp add: ws_onmessage_def typed_def)

lemma app_onmessage_appended:
  "app_onmessage (typed ''reflection'' r) a =
     a\<lparr>messagesContainer := messagesContainer a @
       [\<lparr>className = ''message agent'', innerHTML = Formatted (map_of r ''content'')\<rparr>]\<rparr>
   \<and> app_onmessage (typed ''complete'' r) a =
     a\<lparr>messagesContainer := messagesContainer a @
       [\<lparr>className = ''message agent'', innerHTML = Formatted (map_of r ''content'')\<rparr>]\<rparr>"
  by (simp add: app_onmessage_def handleMessage_def typed_def field_def
      addReflectionMessage_def addCompleteMessage_def appendChild_def)

text \<open>
  Claim C2, as stated, fails: the two clients differ on the same input. A status frame
  sets the status of the browser client and leaves its log alone, and adds an entry to
  the transcript of the desktop shell; a reflection frame is dropped by the one and
  appended by the other; the same text is submitted as a \<^verbatim>\<open>prompt\<close> frame by the one
  and as a \<^verbatim>\<open>task\<close> frame by the other; after one failed connection the one has set a
  1000 ms timer and the other a 3000 ms interval.
\<close>

theorem clients_differ_counterexample:
  "length (messages (dispatch initial [typed ''status'' [(''content'', JStr ''planning'')]])) = 0
   \<and> length (messagesContainer
        (app_dispatch (startup page) [typed ''status'' [(''content'', JStr ''planning'')]])) = 1
   \<and> length (messages (dispatch initial [typed ''reflection'' [(''content'', JStr ''r'')]])) = 0
   \<and> length (messagesContainer
        (app_dispatch (startup page) [typed ''reflection'' [(''content'', JStr ''r'')]])) = 1
   \<and> map snd (sent (provider_run initial [Effect, WsOpen 0, SetInput ''hi'', HandleSubmit])) =
       [JObj [(''type'', JStr ''prompt''), (''content'', JStr ''hi'')]]
   \<and> map snd (app_sent (app_run (startup page) [AppOpen 0, TypeInput ''hi'', Send])) =
       [JObj [(''type'', JStr ''task''), (''content'', JStr ''hi'')]]
   \<and> timeouts (provider_run initial [Effect, WsClose 0]) = [1000]
   \<and> map fst (intervals (app_run (startup page) [AppClose 0])) = [30000, 3000]"
  by (simp add: dispatch_def app_dispatch_def ws_onmessage_def app_onmessage_def
      handleMessage_def typed_def initial_def startup_def page_def app_connect_def
      addStatusMessage_def addReflectionMessage_def appendChild_def field_def
      provider_run_def app_run_def connect_def readyState_of_def ws_onopen_def app_onopen_def
      updateStatus_def handleSubmit_def sendPrompt_def addMessage_def sendMessage_def
      addUserMessage_def trim_hi ws_onclose_def app_onclose_def maxReconnectAttempts_def
      Let_def)

text \<open>
  Claim C2, amended. What the two clients share, for all states and inputs:
  \<^item> over any sequence of inbound frames none of which has the type status, reflection
    or complete, the log of the browser client and the transcript of the desktop shell
    each grow by the number of agent and result frames in it;
  \<^item> no inbound frame makes either client send anything;
  \<^item> a frame that does not parse changes only the console of either;
  \<^item> on an OPEN socket each submits a text by appending one user entry that carries it
    and sending one frame whose content is the text, the browser client with the type
    \<^verbatim>\<open>prompt\<close>, the desktop shell with the type \<^verbatim>\<open>task\<close> and emptying its input.

  Where they differ:
  \<^item> on a close the browser client sets one timer of \<open>min (1000 * 2 ^ attempts) 10000\<close> ms
    while fewer than five attempts were made, and after that no timer but the
    connection-lost notice; the desktop shell sets a 3000 ms interval on every close;
  \<^item> a status frame sets the status of the browser client to its content and changes
    nothing else; in the desktop shell it appends a transcript entry;
  \<^item> a reflection or complete frame changes only the console of the browser client; the
    desktop shell appends it as an agent entry;
  \<^item> in every run of the browser client every frame sent is a prompt frame, so it never
    pings, and a timer sends nothing; in every run of the desktop shell the heartbeat
    is in place, and its tick on an OPEN socket sends one ping frame.
\<close>

theorem clients_common_core:
  "(list_all (\<lambda>f. \<not> typeIn [''status'', ''reflection'', ''complete''] f) fs \<longrightarrow>
      length (messages (dispatch s fs)) =
        length (messages s) + length (filter (typeIn [''agent'', ''result'']) fs)
      \<and> length (messagesContainer (app_dispatch a fs)) =
        length (messagesContainer a) + length (filter (typeIn [''agent'', ''result'']) fs))
   \<and> sent (dispatch s fs) = sent s
   \<and> app_sent (app_dispatch a fs) = app_sent a
   \<and> ws_onmessage Malformed s =
       s\<lparr>console := console s @ [Error ''Error parsing WebSocket message:'']\<rparr>
   \<and> app_onmessage Malformed a =
       a\<lparr>app_console := app_console a @ [Error ''Error parsing message:'']\<rparr>
   \<and> (wsRef s = Some i \<and> readyState_of (sockets s) i = Some OPEN \<longrightarrow>
        sendPrompt p s =
          s\<lparr>messages := messages s @
               [\<lparr>mtype = User, content = Some (JStr p), step = None, success = None,
                 stepNumber = None, totalSteps = None\<rparr>],
            sent := sent s @ [(i, JObj [(''type'', JStr ''prompt''), (''content'', JStr p)])]\<rparr>)
   \<and> (ws a = Some j \<and> readyState_of (app_sockets a) j = Some OPEN
       \<and> trim (messageInput a) \<noteq> [] \<longrightarrow>
        sendMessage a =
          a\<lparr>messagesContainer := messagesContainer a @
               [\<lparr>className = ''message user'', innerHTML = Escaped (trim (messageInput a))\<rparr>],
            app_sent := app_sent a @
               [(j, JObj [(''type'', JStr ''task''),
                          (''content'', JStr (trim (messageInput a)))])],
            messageInput := []\<rparr>)
   \<and> (reconnectAttempts s < 5 \<longrightarrow>
        ws_onclose s =
          s\<lparr>console := console s @ [Log ''WebSocket disconnected'',
                Reconnecting (min (1000 * 2 ^ reconnectAttempts s) 10000)
                  (reconnectAttempts s + 1)],
            isConnected := False, wsRef := None,
            timeouts := timeouts s @ [min (1000 * 2 ^ reconnectAttempts s) 10000],
            pending := pending s @ [length (timeouts s)],
            reconnectTimeoutRef := Some (length (timeouts s))\<rparr>)
   \<and> (5 \<le> reconnectAttempts s \<longrightarrow>
        ws_onclose s =
          s\<lparr>console := console s @ [Log ''WebSocket disconnected''],
            isConnected := False, wsRef := None,
            messages := messages s @ [connectionLost]\<rparr>)
   \<and> app_onclose a =
        a\<lparr>app_console := app_console a @ [Log ''Disconnected from ArbiterAI''],
          statusDot := ''status-dot disconnected'', statusText := ''Disconnected'',
          intervals := intervals a @ [(3000, ReconnectTick)],
          active := active a @ [length (intervals a)],
          reconnectInterval := Some (length (intervals a))\<rparr>
   \<and> ws_onmessage (typed ''status'' r) s = s\<lparr>status := map_of r ''content''\<rparr>
   \<and> app_onmessage (typed ''status'' r) a =
        a\<lparr>messagesContainer := messagesContainer a @
          [\<lparr>className = ''message status'', innerHTML = StatusLine (map_of r ''content'')\<rparr>]\<rparr>
   \<and> ws_onmessage (typed ''reflection'' r) s =
        s\<lparr>console := console s @
          [LogValue ''Unknown message type:'' (Some (JStr ''reflection''))]\<rparr>
   \<and> ws_onmessage (typed ''complete'' r) s =
        s\<lparr>console := console s @
          [LogValue ''Unknown message type:'' (Some (JStr ''complete''))]\<rparr>
   \<and> app_onmessage (typed ''reflection'' r) a =
        a\<lparr>messagesContainer := messagesContainer a @
          [\<lparr>className = ''message agent'', innerHTML = Formatted (map_of r ''content'')\<rparr>]\<rparr>
   \<and> app_onmessage (typed ''complete'' r) a =
        a\<lparr>messagesContainer := messagesContainer a @
          [\<lparr>className = ''message agent'', innerHTML = Formatted (map_of r ''content'')\<rparr>]\<rparr>
   \<and> list_all promptFrame (sent (provider_run initial es))
   \<and> sent (provider_step s (Timeout t)) = sent s
   \<and> heartbeat (app_run (startup page) xs)
   \<and> (heartbeat a \<and> ws a = Some j \<and> readyState_of (app_sockets a) j = Some OPEN \<longrightarrow>
        app_step a (Tick 0) =
          a\<lparr>app_sent := app_sent a @ [(j, JObj [(''type'', JStr ''ping'')])]\<rparr>)"
proof -
  have 1: "list_all (\<lambda>f. \<not> typeIn [''status'', ''reflection'', ''complete''] f) fs \<longrightarrow>
      length (messages (dispatch s fs)) =
        length (messages s) + length (filter (typeIn [''agent'', ''result'']) fs)
      \<and> length (messagesContainer (app_dispatch a fs)) =
        length (messagesContainer a) + length (filter (typeIn [''agent'', ''result'']) fs)"
    using dispatch_length [of s fs] app_dispatch_length [of a fs] filter_common [of fs]
    by simp
  have 2: "ws_onmessage Malformed s =
       s\<lparr>console := console s @ [Error ''Error parsing WebSocket message:'']\<rparr>
   \<and> app_onmessage Malformed a =
       a\<lparr>app_console := app_console a @ [Error ''Error parsing message:'']\<rparr>"
    by (simp add: ws_onmessage_def app_onmessage_def)
  have 3: "list_all promptFrame (sent (provider_run initial es))"
    using prompts_run [of initial es] by (simp add: initial_def)
  have 4: "sent (provider_step s (Timeout t)) = sent s"
    by (simp add: reconnect_def connect_def)
  have 5: "heartbeat (app_run (startup page) xs)"
    using heartbeat_run [OF heartbeat_startup] .
  have 6: "heartbeat a \<and> ws a = Some j \<and> readyState_of (app_sockets a) j = Some OPEN \<longrightarrow>
        app_step a (Tick 0) =
          a\<lparr>app_sent := app_sent a @ [(j, JObj [(''type'', JStr ''ping'')])]\<rparr>"
    using heartbeat_tick [of a] by (simp add: pingTick_def)
  show ?thesis
    using 1 2 3 4 5 6 sent_dispatch [of s fs] app_sent_app_dispatch [of a fs]
      sendPrompt_open [of s i p] sendMessage_open [of a j]
      ws_onclose_below [of s] ws_onclose_exhausted [of s] app_onclose_eq [of a]
      ws_onmessage_status [of r s] app_onmessage_status [of r a]
      ws_onmessage_ignored [of r s] app_onmessage_appended [of r a]
    by blast
qed

theorem clients_common_core_witness:
  "list_all (\<lambda>f. \<not> typeIn [''status'', ''reflection'', ''complete''] f)
     [typed ''agent'' [(''content'', JStr ''a'')], Malformed, typed ''pong'' [],
      typed ''result'' [(''content'', JStr ''b'')]]
   \<and> length (messages (dispatch (provider_run initial [Effect, WsOpen 0])
       [typed ''agent'' [(''content'', JStr ''a'')], Malformed, typed ''pong'' [],
        typed ''result'' [(''content'', JStr ''b'')]])) = 2
   \<and> length (messagesContainer
       (app_dispatch (app_run (startup page) [AppOpen 0, TypeInput ''hi''])
       [typed ''agent'' [(''content'', JStr ''a'')], Malformed, typed ''pong'' [],
        typed ''result'' [(''content'', JStr ''b'')]])) = 2
   \<and> wsRef (provider_run initial [Effect, WsOpen 0]) = Some 0
   \<and> readyState_of (sockets (provider_run initial [Effect, WsOpen 0])) 0 = Some OPEN
   \<and> sent (sendPrompt ''hi'' (provider_run initial [Effect, WsOpen 0])) =
       [(0, JObj [(''type'', JStr ''prompt''), (''content'', JStr ''hi'')])]
   \<and> ws (app_run (startup page) [AppOpen 0, TypeInput ''hi'']) = Some 0
   \<and> readyState_of (app_sockets (app_run (startup page) [AppOpen 0, TypeInput ''hi''])) 0 =
       Some OPEN
   \<and> trim (messageInput (app_run (startup page) [AppOpen 0, TypeInput ''hi''])) \<noteq> []
   \<and> app_sent (sendMessage (app_run (startup page) [AppOpen 0, TypeInput ''hi''])) =
       [(0, JObj [(''type'', JStr ''task''), (''content'', JStr ''hi'')])]
   \<and> reconnectAttempts (provider_run initial [Effect, WsOpen 0]) < 5
   \<and> timeouts (ws_onclose (provider_run initial [Effect, WsOpen 0])) = [1000]
   \<and> 5 \<le> reconnectAttempts (initial\<lparr>reconnectAttempts := 5\<rparr>)
   \<and> timeouts (ws_onclose (initial\<lparr>reconnectAttempts := 5\<rparr>)) = []
   \<and> messages (ws_onclose (initial\<lparr>reconnectAttempts := 5\<rparr>)) = [connectionLost]
   \<and> heartbeat (app_run (startup page) [AppOpen 0, TypeInput ''hi''])
   \<and> app_sent (app_step (app_run (startup page) [AppOpen 0, TypeInput ''hi'']) (Tick 0)) =
       [(0, JObj [(''type'', JStr ''ping'')])]"
proof -
  let ?fs = "[typed ''agent'' [(''content'', JStr ''a'')], Malformed, typed ''pong'' [],
      typed ''result'' [(''content'', JStr ''b'')]]"
  let ?s = "provider_run initial [Effect, WsOpen 0]"
  let ?a = "app_run (startup page) [AppOpen 0, TypeInput ''hi'']"
  let ?b = "initial\<lparr>reconnectAttempts := 5\<rparr>"
  have p: "?s = initial\<lparr>sockets := [OPEN], wsRef := Some 0, isConnected := True,
        console := [Log ''WebSocket connected'']\<rparr>"
    by (simp add: provider_run_def initial_def connect_def readyState_of_def ws_onopen_def)
  have q: "?a = page\<lparr>ws := Some 0, app_sockets := [OPEN], intervals := [(30000, PingTick)],
        active := [0], app_console := [Log ''Connected to ArbiterAI''],
        statusDot := ''status-dot connected'', statusText := ''Connected'',
        messageInput := ''hi''\<rparr>"
    by (simp add: app_run_def startup_def page_def app_connect_def readyState_of_def
        app_onopen_def updateStatus_def)
  have l: "list_all (\<lambda>f. \<not> typeIn [''status'', ''reflection'', ''complete''] f) ?fs"
    by (simp add: typeIn_def typed_def)
  have c: "length (filter (typeIn [''agent'', ''result'']) ?fs) = 2"
    by (simp add: typeIn_def typed_def)
  have o: "wsRef ?s = Some 0 \<and> readyState_of (sockets ?s) 0 = Some OPEN
      \<and> reconnectAttempts ?s < 5 \<and> reconnectAttempts ?s = 0
      \<and> messages ?s = [] \<and> sent ?s = [] \<and> timeouts ?s = []"
    unfolding p by (simp add: initial_def readyState_of_def)
  have o': "ws ?a = Some 0 \<and> readyState_of (app_sockets ?a) 0 = Some OPEN
      \<and> trim (messageInput ?a) \<noteq> [] \<and> trim (messageInput ?a) = ''hi''
      \<and> messagesContainer ?a = [] \<and> app_sent ?a = []"
    unfolding q by (simp add: page_def readyState_of_def trim_hi)
  have x: "5 \<le> reconnectAttempts ?b \<and> messages ?b = [] \<and> timeouts ?b = []"
    by (simp add: initial_def)
  have h: "heartbeat ?a"
    using clients_common_core [of _ _ _ _ _ _ _ _ _ "[AppOpen 0, TypeInput ''hi'']"] by blast
  have 1: "length (messages (dispatch ?s ?fs)) =
        length (messages ?s) + length (filter (typeIn [''agent'', ''result'']) ?fs)
      \<and> length (messagesContainer (app_dispatch ?a ?fs)) =
        length (messagesContainer ?a) + length (filter (typeIn [''agent'', ''result'']) ?fs)"
    using clients_common_core [of ?fs ?s ?a] l by blast
  have 2: "sendPrompt ''hi'' ?s =
          ?s\<lparr>messages := messages ?s @
               [\<lparr>mtype = User, content = Some (JStr ''hi''), step = None, success = None,
                 stepNumber = None, totalSteps = None\<rparr>],
            sent := sent ?s @
               [(0, JObj [(''type'', JStr ''prompt''), (''content'', JStr ''hi'')])]\<rparr>"
    using clients_common_core [of ?fs ?s ?a 0 "''hi''"] o by blast
  have 3: "sendMessage ?a =
          ?a\<lparr>messagesContainer := messagesContainer ?a @
               [\<lparr>className = ''message user'', innerHTML = Escaped (trim (messageInput ?a))\<rparr>],
            app_sent := app_sent ?a @
               [(0, JObj [(''type'', JStr ''task''),
                          (''content'', JStr (trim (messageInput ?a)))])],
            messageInput := []\<rparr>"
    using clients_common_core [of ?fs ?s ?a 0 "''hi''" 0] o' by blast
  have 4: "ws_onclose ?s =
          ?s\<lparr>console := console ?s @ [Log ''WebSocket disconnected'',
                Reconnecting (min (1000 * 2 ^ reconnectAttempts ?s) 10000)
                  (reconnectAttempts ?s + 1)],
            isConnected := False, wsRef := None,
            timeouts := timeouts ?s @ [min (1000 * 2 ^ reconnectAttempts ?s) 10000],
            pending := pending ?s @ [length (timeouts ?s)],
            reconnectTimeoutRef := Some (length (timeouts ?s))\<rparr>"
    using clients_common_core [of ?fs ?s ?a] o by blast
  have 5: "ws_onclose ?b =
          ?b\<lparr>console := console ?b @ [Log ''WebSocket disconnected''],
            isConnected := False, wsRef := None,
            messages := messages ?b @ [connectionLost]\<rparr>"
    using clients_common_core [of ?fs ?b ?a] x by blast
  have 6: "app_step ?a (Tick 0) =
          ?a\<lparr>app_sent := app_sent ?a @ [(0, JObj [(''type'', JStr ''ping'')])]\<rparr>"
    using clients_common_core [of ?fs ?s ?a 0 "''hi''" 0] h o' by blast
  have t: "timeouts (ws_onclose ?s) = [1000]"
    unfolding 4 using o by simp
  have u: "timeouts (ws_onclose ?b) = [] \<and> messages (ws_onclose ?b) = [connectionLost]"
    unfolding 5 using x by simp
  have v: "sent (sendPrompt ''hi'' ?s) =
      [(0, JObj [(''type'', JStr ''prompt''), (''content'', JStr ''hi'')])]"
    unfolding 2 using o by simp
  have w: "app_sent (sendMessage ?a) =
      [(0, JObj [(''type'', JStr ''task''), (''content'', JStr ''hi'')])]"
    unfolding 3 using o' by simp
  have y: "app_sent (app_step ?a (Tick 0)) = [(0, JObj [(''type'', JStr ''ping'')])]"
    unfolding 6 using o' by simp
  show ?thesis
    using l 1 c o o' x h t u v w y by simp
qed

end
